theory Spec2Isabelle
  imports Main "HOL-Library.Sublist"
begin

text \<open>
  A shallow embedding of the WebBS compiler: the lexer (compiler/lexer.js), the semantic
  validator (compiler/validation.js), the operator table (compiler/operatorTable.js), the
  byte encoder (compiler/byteCode.js) and the code generators (compiler/moduleCodeGen.js,
  compiler/functionCodeGen.js). JavaScript exceptions are values of a sum type, object
  mutation is explicit state passing, and loops are recursive functions.
\<close>

section \<open>Operator table (compiler/operatorTable.js)\<close>

text \<open>
  Run types are the JavaScript strings \<open>i32\<close>, \<open>i64\<close>, \<open>f32\<close>, \<open>f64\<close> and \<open>void\<close>.
  The operator table maps the text of an operator token to a second table that is keyed by
  the operand run types (\<open>left,right\<close> for infix operators, the single operand type for
  prefix operators). A missing key is JavaScript's \<open>undefined\<close>, modelled by \<open>None\<close>.
\<close>

type_synonym runType = string

record opInfo =
  returnType :: runType
  operator :: string

definition operatorTableEntries :: "(string \<times> (string \<times> opInfo) list) list" where
  "operatorTableEntries = [
  (''=='',
     [(''i32,i32'', \<lparr>returnType = ''i32'', operator = ''i32.eq''\<rparr>),
      (''i64,i64'', \<lparr>returnType = ''i32'', operator = ''i64.eq''\<rparr>),
      (''f32,f32'', \<lparr>returnType = ''i32'', operator = ''f32.eq''\<rparr>),
      (''f64,f64'', \<lparr>returnType = ''i32'', operator = ''f64.eq''\<rparr>)]),
  (''!='',
     [(''i32,i32'', \<lparr>returnType = ''i32'', operator = ''i32.ne''\<rparr>),
      (''i64,i64'', \<lparr>returnType = ''i32'', operator = ''i64.ne''\<rparr>),
      (''f32,f32'', \<lparr>returnType = ''i32'', operator = ''f32.ne''\<rparr>),
      (''f64,f64'', \<lparr>returnType = ''i32'', operator = ''f64.ne''\<rparr>)]),
  (''<'',
     [(''i32,i32'', \<lparr>returnType = ''i32'', operator = ''i32.lt_s''\<rparr>),
      (''i64,i64'', \<lparr>returnType = ''i32'', operator = ''i64.lt_s''\<rparr>),
      (''f32,f32'', \<lparr>returnType = ''i32'', operator = ''f32.lt''\<rparr>),
      (''f64,f64'', \<lparr>returnType = ''i32'', operator = ''f64.lt''\<rparr>)]),
  (''|<|'',
     [(''i32,i32'', \<lparr>returnType = ''i32'', operator = ''i32.lt_u''\<rparr>),
      (''i64,i64'', \<lparr>returnType = ''i64'', operator = ''i64.lt_u''\<rparr>)]),
  (''>'',
     [(''i32,i32'', \<lparr>returnType = ''i32'', operator = ''i32.gt_s''\<rparr>),
      (''i64,i64'', \<lparr>returnType = ''i32'', operator = ''i64.gt_s''\<rparr>),
      (''f32,f32'', \<lparr>returnType = ''i32'', operator = ''f32.gt''\<rparr>),
      (''f64,f64'', \<lparr>returnType = ''i32'', operator = ''f64.gt''\<rparr>)]),
  (''|>|'',
     [(''i32,i32'', \<lparr>returnType = ''i32'', operator = ''i32.gt_u''\<rparr>),
      (''i64,i64'', \<lparr>returnType = ''i64'', operator = ''i64.gt_u''\<rparr>)]),
  (''<='',
     [(''i32,i32'', \<lparr>returnType = ''i32'', operator = ''i32.le_s''\<rparr>),
      (''i64,i64'', \<lparr>returnType = ''i32'', operator = ''i64.le_s''\<rparr>),
      (''f32,f32'', \<lparr>returnType = ''i32'', operator = ''f32.le''\<rparr>),
      (''f64,f64'', \<lparr>returnType = ''i32'', operator = ''f64.le''\<rparr>)]),
  (''|<=|'',
     [(''i32,i32'', \<lparr>returnType = ''i32'', operator = ''i32.le_u''\<rparr>),
      (''i64,i64'', \<lparr>returnType = ''i64'', operator = ''i64.le_u''\<rparr>)]),
  (''>='',
     [(''i32,i32'', \<lparr>returnType = ''i32'', operator = ''i32.ge_s''\<rparr>),
      (''i64,i64'', \<lparr>returnType = ''i32'', operator = ''i64.ge_s''\<rparr>),
      (''f32,f32'', \<lparr>returnType = ''i32'', operator = ''f32.ge''\<rparr>),
      (''f64,f64'', \<lparr>returnType = ''i32'', operator = ''f64.ge''\<rparr>)]),
  (''|>=|'',
     [(''i32,i32'', \<lparr>returnType = ''i32'', operator = ''i32.ge_u''\<rparr>),
      (''i64,i64'', \<lparr>returnType = ''i64'', operator = ''i64.ge_u''\<rparr>)]),
  (''+'',
     [(''i32,i32'', \<lparr>returnType = ''i32'', operator = ''i32.add''\<rparr>),
      (''i64,i64'', \<lparr>returnType = ''i64'', operator = ''i64.add''\<rparr>),
      (''f32,f32'', \<lparr>returnType = ''f32'', operator = ''f32.add''\<rparr>),
      (''f64,f64'', \<lparr>returnType = ''f64'', operator = ''f64.add''\<rparr>)]),
  (''-'',
     [(''i32,i32'', \<lparr>returnType = ''i32'', operator = ''i32.sub''\<rparr>),
      (''i64,i64'', \<lparr>returnType = ''i64'', operator = ''i64.sub''\<rparr>),
      (''f32,f32'', \<lparr>returnType = ''f32'', operator = ''f32.sub''\<rparr>),
      (''f64,f64'', \<lparr>returnType = ''f64'', operator = ''f64.sub''\<rparr>)]),
  (''*'',
     [(''i32,i32'', \<lparr>returnType = ''i32'', operator = ''i32.mul''\<rparr>),
      (''i64,i64'', \<lparr>returnType = ''i64'', operator = ''i64.mul''\<rparr>),
      (''f32,f32'', \<lparr>returnType = ''f32'', operator = ''f32.mul''\<rparr>),
      (''f64,f64'', \<lparr>returnType = ''f64'', operator = ''f64.mul''\<rparr>)]),
  (''/'',
     [(''i32,i32'', \<lparr>returnType = ''i32'', operator = ''i32.div_s''\<rparr>),
      (''i64,i64'', \<lparr>returnType = ''i64'', operator = ''i64.div_s''\<rparr>),
      (''f32,f32'', \<lparr>returnType = ''f32'', operator = ''f32.div''\<rparr>),
      (''f64,f64'', \<lparr>returnType = ''f64'', operator = ''f64.div''\<rparr>)]),
  (''|/|'',
     [(''i32,i32'', \<lparr>returnType = ''i32'', operator = ''i32.div_u''\<rparr>),
      (''i64,i64'', \<lparr>returnType = ''i64'', operator = ''i64.div_u''\<rparr>)]),
  (''&'',
     [(''i32,i32'', \<lparr>returnType = ''i32'', operator = ''i32.and''\<rparr>),
      (''i64,i64'', \<lparr>returnType = ''i64'', operator = ''i64.and''\<rparr>)]),
  (''|'',
     [(''i32,i32'', \<lparr>returnType = ''i32'', operator = ''i32.or''\<rparr>),
      (''i64,i64'', \<lparr>returnType = ''i64'', operator = ''i64.or''\<rparr>)]),
  (''xor'',
     [(''i32,i32'', \<lparr>returnType = ''i32'', operator = ''i32.xor''\<rparr>),
      (''i64,i64'', \<lparr>returnType = ''i64'', operator = ''i64.xor''\<rparr>)]),
  (''with_sign_of'',
     [(''f32,f32'', \<lparr>returnType = ''f32'', operator = ''f32.copysign''\<rparr>),
      (''f64,f64'', \<lparr>returnType = ''f64'', operator = ''f64.copysign''\<rparr>)]),
  (''%'',
     [(''i32,i32'', \<lparr>returnType = ''i32'', operator = ''i32.rem_s''\<rparr>),
      (''i64,i64'', \<lparr>returnType = ''i64'', operator = ''i64.rem_s''\<rparr>)]),
  (''|%|'',
     [(''i32,i32'', \<lparr>returnType = ''i32'', operator = ''i32.rem_u''\<rparr>),
      (''i64,i64'', \<lparr>returnType = ''i64'', operator = ''i64.rem_u''\<rparr>)]),
  (''<<'',
     [(''i32,i32'', \<lparr>returnType = ''i32'', operator = ''i32.shl''\<rparr>),
      (''i64,i64'', \<lparr>returnType = ''i64'', operator = ''i64.shl''\<rparr>)]),
  (''>>'',
     [(''i32,i32'', \<lparr>returnType = ''i32'', operator = ''i32.shr_s''\<rparr>),
      (''i64,i64'', \<lparr>returnType = ''i64'', operator = ''i64.shr_s''\<rparr>)]),
  (''>>>'',
     [(''i32,i32'', \<lparr>returnType = ''i32'', operator = ''i32.shr_u''\<rparr>),
      (''i64,i64'', \<lparr>returnType = ''i64'', operator = ''i64.shr_u''\<rparr>)]),
  (''rotate_left'',
     [(''i32,i32'', \<lparr>returnType = ''i32'', operator = ''i32.rotl''\<rparr>),
      (''i64,i64'', \<lparr>returnType = ''i64'', operator = ''i64.rotl''\<rparr>)]),
  (''rotate_right'',
     [(''i32,i32'', \<lparr>returnType = ''i32'', operator = ''i32.rotr''\<rparr>),
      (''i64,i64'', \<lparr>returnType = ''i64'', operator = ''i64.rotr''\<rparr>)]),
  (''?<'',
     [(''f32,f32'', \<lparr>returnType = ''f32'', operator = ''f32.min''\<rparr>),
      (''f64,f64'', \<lparr>returnType = ''f64'', operator = ''f64.min''\<rparr>)]),
  (''?>'',
     [(''f32,f32'', \<lparr>returnType = ''f32'', operator = ''f32.max''\<rparr>),
      (''f64,f64'', \<lparr>returnType = ''f64'', operator = ''f64.max''\<rparr>)]),
  (''cast_i32'',
     [(''f32'', \<lparr>returnType = ''i32'', operator = ''i32.reinterpret/f32''\<rparr>)]),
  (''cast_i64'',
     [(''f64'', \<lparr>returnType = ''i64'', operator = ''i64.reinterpret/f64''\<rparr>)]),
  (''cast_f32'',
     [(''i32'', \<lparr>returnType = ''f32'', operator = ''f32.reinterpret/i32''\<rparr>)]),
  (''cast_f64'',
     [(''i64'', \<lparr>returnType = ''f64'', operator = ''f64.reinterpret/i64''\<rparr>)]),
  (''to_i32'',
     [(''i64'', \<lparr>returnType = ''i32'', operator = ''i32.wrap/i64''\<rparr>),
      (''f32'', \<lparr>returnType = ''i32'', operator = ''i32.trunc_s/f32''\<rparr>),
      (''f64'', \<lparr>returnType = ''i32'', operator = ''i32.trunc_s/i64''\<rparr>)]),
  (''to_i64'',
     [(''i32'', \<lparr>returnType = ''i64'', operator = ''i64.extend_s/i64''\<rparr>),
      (''f32'', \<lparr>returnType = ''i64'', operator = ''i64.trunc_s/f32''\<rparr>),
      (''f64'', \<lparr>returnType = ''i64'', operator = ''i64.trunc_s/i64''\<rparr>)]),
  (''to_f32'',
     [(''i32'', \<lparr>returnType = ''f32'', operator = ''f32.convert_s/i32''\<rparr>),
      (''i64'', \<lparr>returnType = ''f32'', operator = ''f32.convert_s/i64''\<rparr>),
      (''f64'', \<lparr>returnType = ''f32'', operator = ''f32.demote/f64''\<rparr>)]),
  (''to_f64'',
     [(''i32'', \<lparr>returnType = ''f64'', operator = ''f64.convert_s/i32''\<rparr>),
      (''i64'', \<lparr>returnType = ''f64'', operator = ''f64.convert_s/i64''\<rparr>),
      (''f64'', \<lparr>returnType = ''f64'', operator = ''f64.promote/f32''\<rparr>)]),
  (''abs'',
     [(''f32'', \<lparr>returnType = ''f32'', operator = ''f32.abs''\<rparr>),
      (''f64'', \<lparr>returnType = ''f64'', operator = ''f64.abs''\<rparr>)]),
  (''ceil'',
     [(''f32'', \<lparr>returnType = ''f32'', operator = ''f32.ceil''\<rparr>),
      (''f64'', \<lparr>returnType = ''f64'', operator = ''f64.ceil''\<rparr>)]),
  (''count_ones'',
     [(''i32'', \<lparr>returnType = ''i32'', operator = ''i32.popcnt''\<rparr>),
      (''i64'', \<lparr>returnType = ''i64'', operator = ''i64.popcnt''\<rparr>)]),
  (''floor'',
     [(''f32'', \<lparr>returnType = ''f32'', operator = ''f32.floor''\<rparr>),
      (''f64'', \<lparr>returnType = ''f64'', operator = ''f64.floor''\<rparr>)]),
  (''leading_zeros'',
     [(''i32'', \<lparr>returnType = ''i32'', operator = ''f32.clz''\<rparr>),
      (''i64'', \<lparr>returnType = ''i64'', operator = ''f64.clz''\<rparr>)]),
  (''round'',
     [(''f32'', \<lparr>returnType = ''f32'', operator = ''f32.nearest''\<rparr>),
      (''f64'', \<lparr>returnType = ''f64'', operator = ''f64.nearest''\<rparr>)]),
  (''sqrt'',
     [(''f32'', \<lparr>returnType = ''f32'', operator = ''f32.sqrt''\<rparr>),
      (''f64'', \<lparr>returnType = ''f64'', operator = ''f64.sqrt''\<rparr>)]),
  (''trailing_zeros'',
     [(''i32'', \<lparr>returnType = ''i32'', operator = ''i32.ctz''\<rparr>),
      (''i64'', \<lparr>returnType = ''i64'', operator = ''i64.ctz''\<rparr>)]),
  (''truncate'',
     [(''f32'', \<lparr>returnType = ''f32'', operator = ''f32.trunc''\<rparr>),
      (''f64'', \<lparr>returnType = ''f64'', operator = ''f64.trunc''\<rparr>)]),
  (''!'',
     [(''i32'', \<lparr>returnType = ''i32'', operator = ''i32.eqz''\<rparr>),
      (''i64'', \<lparr>returnType = ''i32'', operator = ''i64.eqz''\<rparr>)]),
  (''allocate_pages'',
     [(''i32'', \<lparr>returnType = ''i32'', operator = ''grow_memory''\<rparr>)])]"

definition operatorTable :: "string \<Rightarrow> (string \<times> opInfo) list option" where
  "operatorTable tokenText = map_of operatorTableEntries tokenText"

text \<open>\<open>operatorTable[tokenText][key]\<close>, for a token text that the table has.\<close>

definition operatorInfo :: "string \<Rightarrow> string \<Rightarrow> opInfo option" where
  "operatorInfo tokenText key =
     (case operatorTable tokenText of
        None \<Rightarrow> None
      | Some entries \<Rightarrow> map_of entries key)"




section \<open>Opcode table of the byte encoder (compiler/byteCode.js)\<close>

text \<open>
  The code table starts with the reference codes that are not instructions. The list
  \<open>opCodes\<close> is the consecutive range of instruction codes, \<open>None\<close> standing for the
  \<open>null\<close> of a reserved slot; the loop at the end of the file stores index \<open>i\<close> under the
  mnemonic found at position \<open>i\<close>.
\<close>

definition codeTableInitial :: "(string \<times> nat) list" where
  "codeTableInitial = [
    (''i32'', 0x7f), (''i64'', 0x7e), (''f32'', 0x7d), (''f64'', 0x7c),
    (''anyfunc'', 0x70), (''func'', 0x60), (''void'', 0x40),
    (''section.type'', 0x01), (''section.import'', 0x02), (''section.function'', 0x03),
    (''section.table'', 0x04), (''section.memory'', 0x05), (''section.global'', 0x06),
    (''section.export'', 0x07), (''section.start'', 0x08), (''section.element'', 0x09),
    (''section.code'', 0x0a), (''section.data'', 0x0b),
    (''external_kind.function'', 0x00), (''external_kind.table'', 0x01),
    (''external_kind.memory'', 0x02), (''external_kind.global'', 0x03),
    (''global.immutable'', 0x00), (''global.mutable'', 0x01)]"

definition opCodes :: "string option list" where
  "opCodes =
  [Some ''unreachable'', Some ''nop'', Some ''block'', Some ''loop'', Some ''if'', Some ''else'',
   None, None, None, None, None, Some ''end'', Some ''br'', Some ''br_if'', Some ''br_table'',
   Some ''return'', Some ''call'', Some ''call_indirect'', None, None, None, None, None, None,
   None, None, Some ''drop'', Some ''select'', None, None, None, None, Some ''get_local'',
   Some ''set_local'', Some ''tee_local'', Some ''get_global'', Some ''set_global'', None, None,
   None, Some ''i32.load'', Some ''i64.load'', Some ''f32.load'', Some ''f64.load'',
   Some ''i32.load8_s'', Some ''i32.load8_u'', Some ''i32.load16_s'', Some ''i32.load16_u'',
   Some ''i64.load8_s'', Some ''i64.load8_u'', Some ''i64.load16_s'', Some ''i64.load16_u'',
   Some ''i64.load32_s'', Some ''i64.load32_u'', Some ''i32.store'', Some ''i64.store'',
   Some ''f32.store'', Some ''f64.store'', Some ''i32.store8'', Some ''i32.store16'',
   Some ''i64.store8'', Some ''i64.store16'', Some ''i64.store32'', Some ''current_memory'',
   Some ''grow_memory'', Some ''i32.const'', Some ''i64.const'', Some ''f32.const'',
   Some ''f64.const'', Some ''i32.eqz'', Some ''i32.eq'', Some ''i32.ne'', Some ''i32.lt_s'',
   Some ''i32.lt_u'', Some ''i32.gt_s'', Some ''i32.gt_u'', Some ''i32.le_s'', Some ''i32.le_u'',
   Some ''i32.ge_s'', Some ''i32.ge_u'', Some ''i64.eqz'', Some ''i64.eq'', Some ''i64.ne'',
   Some ''i64.lt_s'', Some ''i64.lt_u'', Some ''i64.gt_s'', Some ''i64.gt_u'', Some ''i64.le_s'',
   Some ''i64.le_u'', Some ''i64.ge_s'', Some ''i64.ge_u'', Some ''f32.eq'', Some ''f32.ne'',
   Some ''f32.lt'', Some ''f32.gt'', Some ''f32.le'', Some ''f32.ge'', Some ''f64.eq'',
   Some ''f64.ne'', Some ''f64.lt'', Some ''f64.gt'', Some ''f64.le'', Some ''f64.ge'',
   Some ''i32.clz'', Some ''i32.ctz'', Some ''i32.popcnt'', Some ''i32.add'', Some ''i32.sub'',
   Some ''i32.mul'', Some ''i32.div_s'', Some ''i32.div_u'', Some ''i32.rem_s'',
   Some ''i32.rem_u'', Some ''i32.and'', Some ''i32.or'', Some ''i32.xor'', Some ''i32.shl'',
   Some ''i32.shr_s'', Some ''i32.shr_u'', Some ''i32.rotl'', Some ''i32.rotr'', Some ''i64.clz'',
   Some ''i64.ctz'', Some ''i64.popcnt'', Some ''i64.add'', Some ''i64.sub'', Some ''i64.mul'',
   Some ''i64.div_s'', Some ''i64.div_u'', Some ''i64.rem_s'', Some ''i64.rem_u'',
   Some ''i64.and'', Some ''i64.or'', Some ''i64.xor'', Some ''i64.shl'', Some ''i64.shr_s'',
   Some ''i64.shr_u'', Some ''i64.rotl'', Some ''i64.rotr'', Some ''f32.abs'', Some ''f32.neg'',
   Some ''f32.ceil'', Some ''f32.floor'', Some ''f32.trunc'', Some ''f32.nearest'',
   Some ''f32.sqrt'', Some ''f32.add'', Some ''f32.sub'', Some ''f32.mul'', Some ''f32.div'',
   Some ''f32.min'', Some ''f32.max'', Some ''f32.copysign'', Some ''f64.abs'', Some ''f64.neg'',
   Some ''f64.ceil'', Some ''f64.floor'', Some ''f64.trunc'', Some ''f64.nearest'',
   Some ''f64.sqrt'', Some ''f64.add'', Some ''f64.sub'', Some ''f64.mul'', Some ''f64.div'',
   Some ''f64.min'', Some ''f64.max'', Some ''f64.copysign'', Some ''i32.wrap/i64'',
   Some ''i32.trunc_s/f32'', Some ''i32.trunc_u/f32'', Some ''i32.trunc_s/f64'',
   Some ''i32.trunc_u/f64'', Some ''i64.extend_s/i32'', Some ''i64.extend_u/i32'',
   Some ''i64.trunc_s/f32'', Some ''i64.trunc_u/f32'', Some ''i64.trunc_s/f64'',
   Some ''i64.trunc_u/f64'', Some ''f32.convert_s/i32'', Some ''f32.convert_u/i32'',
   Some ''f32.convert_s/i64'', Some ''f32.convert_u/i64'', Some ''f32.demote/f64'',
   Some ''f64.convert_s/i32'', Some ''f64.convert_u/i32'', Some ''f64.convert_s/i64'',
   Some ''f64.convert_u/i64'', Some ''f64.promote/f32'', Some ''i32.reinterpret/f32'',
   Some ''i64.reinterpret/f64'', Some ''f32.reinterpret/i32'', Some ''f64.reinterpret/i64'']"

fun fillCodeTable :: "nat \<Rightarrow> string option list \<Rightarrow> (string \<rightharpoonup> nat) \<Rightarrow> (string \<rightharpoonup> nat)" where
  "fillCodeTable i [] table = table"
| "fillCodeTable i (None # ops) table = fillCodeTable (i + 1) ops table"
| "fillCodeTable i (Some op # ops) table = fillCodeTable (i + 1) ops (table(op \<mapsto> i))"

definition codeTable :: "string \<rightharpoonup> nat" where
  "codeTable = fillCodeTable 0 opCodes (map_of codeTableInitial)"

section \<open>Variable-length integers of the byte encoder (compiler/byteCode.js)\<close>

text \<open>
  JavaScript numbers that hold integers are modelled by \<open>int\<close>. The bitwise operators
  \<open>&\<close>, \<open>|\<close> and \<open>>>\<close> first convert their operand to a signed 32-bit integer
  (\<open>ToInt32\<close>), and \<open>>>>\<close> converts it to an unsigned 32-bit integer (\<open>ToUint32\<close>);
  on \<open>int\<close>, \<open>drop_bit 7\<close> is the division by 128 that rounds towards minus infinity,
  which is what both shifts compute on the converted value.
\<close>

definition ToInt32 :: "int \<Rightarrow> int" where
  "ToInt32 n = (n + 2 ^ 31) mod 2 ^ 32 - 2 ^ 31"

definition ToUint32 :: "int \<Rightarrow> int" where
  "ToUint32 n = n mod 2 ^ 32"

text \<open>
  \<open>LEB\<close> and \<open>uLEB\<close> push onto the buffer they are given and return it; the model
  returns the extended list.
\<close>

function LEB :: "int \<Rightarrow> int list \<Rightarrow> int list" where
  "LEB number buffer =
     (let byte = and (ToInt32 number) 127;
          signBit = and byte 64;
          number' = drop_bit 7 (ToInt32 number)
      in if (number' = 0 \<and> signBit = 0) \<or> (number' = -1 \<and> signBit \<noteq> 0)
         then buffer @ [byte]
         else LEB number' (buffer @ [or byte 128]))"
  by pat_completeness auto
termination
proof (relation "measure (\<lambda>(number, buffer). nat \<bar>ToInt32 number\<bar>)", goal_cases)
  case 1
  show ?case by simp
next
  case (2 number buffer byte signBit number')
  define m where "m = ToInt32 number"
  have r: "- (2 ^ 31) \<le> m" "m < 2 ^ 31"
    by (simp_all add: m_def ToInt32_def)
  have n': "number' = m div 128"
    using 2(3) by (simp add: m_def drop_bit_eq_div)
  have "- (2 ^ 31) \<le> number'" "number' < 2 ^ 31"
    using r n' by simp_all
  then have id: "ToInt32 number' = number'"
    by (simp add: ToInt32_def)
  have m0: "m \<noteq> 0"
  proof
    assume "m = 0"
    then show False using 2 n' by (simp add: m_def)
  qed
  have m1: "m \<noteq> -1"
  proof
    assume "m = -1"
    then have "ToInt32 number = -1" by (simp add: m_def)
    then show False using 2 by (simp add: drop_bit_eq_div)
  qed
  have "\<bar>m div 128\<bar> < \<bar>m\<bar>"
    using m0 m1 by linarith
  then show ?case
    using id n' by (simp add: m_def)
qed

function uLEB :: "int \<Rightarrow> int list \<Rightarrow> int list" where
  "uLEB number buffer =
     (let byte = and (ToInt32 number) 127;
          number' = drop_bit 7 (ToUint32 number)
      in if number' = 0
         then buffer @ [byte]
         else uLEB number' (buffer @ [or byte 128]))"
  by pat_completeness auto
termination
proof (relation "measure (\<lambda>(number, buffer). nat (ToUint32 number))", goal_cases)
  case 1
  show ?case by simp
next
  case (2 number buffer byte number')
  define m where "m = ToUint32 number"
  have r: "0 \<le> m" "m < 2 ^ 32"
    by (simp_all add: m_def ToUint32_def)
  have n': "number' = m div 128"
    using 2(2) by (simp add: m_def drop_bit_eq_div)
  have "0 \<le> number'" "number' < 2 ^ 32"
    using r n' by simp_all
  then have id: "ToUint32 number' = number'"
    by (simp add: ToUint32_def)
  have "m div 128 < m"
    using r 2(3) n' by linarith
  then show ?case
    using id n' r by (simp add: m_def)
qed

declare LEB.simps [simp del] uLEB.simps [simp del]

text \<open>
  The decoders are not part of the compiler: they are the LEB128 decoding of the target
  format, against which the emitted sequences are read back. A byte below 128 ends the
  sequence; in the signed form its bit 6 is the sign. \<open>None\<close> is a sequence that ends
  before its last byte.
\<close>

fun decodeULEB128 :: "int list \<Rightarrow> int option" where
  "decodeULEB128 [] = None"
| "decodeULEB128 (b # bs) =
     (if b < 128 then Some b
      else map_option (\<lambda>v. (b - 128) + 128 * v) (decodeULEB128 bs))"

fun decodeSLEB128 :: "int list \<Rightarrow> int option" where
  "decodeSLEB128 [] = None"
| "decodeSLEB128 (b # bs) =
     (if b < 128 then Some (if 64 \<le> b then b - 128 else b)
      else map_option (\<lambda>v. (b - 128) + 128 * v) (decodeSLEB128 bs))"

section \<open>Syntax types (compiler/syntax.js)\<close>

text \<open>
  Every \<open>export const X = {}\<close> of the syntax table is one constructor; the objects are
  only ever compared by identity.
\<close>

datatype (plugins only: code size) ASType =
    ADD | ADDRESS | ADDRESS_CLOSE | ALLOCATE_PAGES | AND | ARG_LIST | AS | ASSIGN | BAD_TOKEN
  | BITWISE_AND | BITWISE_OR | BITWISE_SHIFT | BITWISE_XOR | BLOCK | BLOCK_CLOSE | BREAK | CALL
  | COMMA | COMMENT | CONTINUE | DECLARATION | DEFAULT_MEMORY | DEFAULT_TABLE | DEFINITION
  | ELSE | END_OF_INPUT | EQ_COMPARISON | EXPORT | EXPORT_TYPE | F32_LITERAL | F64_LITERAL | FN
  | FN_PTR | FN_SIGNATURE | FROM | I32_LITERAL | I64_LITERAL | IF | IMMUTABLE | IMPORT
  | INIT_EXPR | LOOP | MEMORY_ACCESS | MISC_INFIX | NEG | OR | ORDER_COMPARISON
  | PAGES_ALLOCATED | PARAM_LIST | PAREN | PAREN_CLOSE | PASS | PTR | RETURN | ROOT | SCALE_OP
  | SEMICOLON | STRING | STORAGE_TYPE | SUB | SUFFIX_OP | TYPE_LIST | UNARY_MATH_OP
  | VALUE_TYPE | VARIABLE | VOID | WS | YIELD

section \<open>Lexer (compiler/lexer.js)\<close>

subsection \<open>Regular expressions\<close>

text \<open>
  A JavaScript string is a sequence of UTF-16 code units, here natural numbers; \<open>str\<close>
  turns a literal of the theory into such a sequence. The patterns of the lexer use
  character classes, literals, sequence, alternation, \<open>?\<close>, \<open>*\<close>, \<open>+\<close> and the two
  lookaheads, and neither flags nor back references.
\<close>

type_synonym jsstring = "nat list"

definition str :: "string \<Rightarrow> jsstring" where
  "str s = map of_char s"

datatype cclass =
    Space               \<comment> \<open>\<open>\s\<close>\<close>
  | Digit               \<comment> \<open>\<open>\d\<close>\<close>
  | WordChar            \<comment> \<open>\<open>\w\<close>\<close>
  | AnyChar             \<comment> \<open>\<open>.\<close>, every code unit but a line terminator\<close>
  | NoneOf string       \<comment> \<open>\<open>[^...]\<close>\<close>
  | OneOf string        \<comment> \<open>\<open>[...]\<close>\<close>

definition isSpace :: "nat \<Rightarrow> bool" where
  "isSpace c \<longleftrightarrow> c \<in> set [9, 10, 11, 12, 13, 32, 160, 0x1680, 0x2028, 0x2029, 0x202f, 0x205f,
      0x3000, 0xfeff] \<or> (0x2000 \<le> c \<and> c \<le> 0x200a)"

definition isDigit :: "nat \<Rightarrow> bool" where
  "isDigit c \<longleftrightarrow> 48 \<le> c \<and> c \<le> 57"

definition isWordChar :: "nat \<Rightarrow> bool" where
  "isWordChar c \<longleftrightarrow> (65 \<le> c \<and> c \<le> 90) \<or> (97 \<le> c \<and> c \<le> 122) \<or> isDigit c \<or> c = 95"

definition isLineTerminator :: "nat \<Rightarrow> bool" where
  "isLineTerminator c \<longleftrightarrow> c \<in> set [10, 13, 0x2028, 0x2029]"

fun inClass :: "cclass \<Rightarrow> nat \<Rightarrow> bool" where
  "inClass Space c = isSpace c"
| "inClass Digit c = isDigit c"
| "inClass WordChar c = isWordChar c"
| "inClass AnyChar c = (\<not> isLineTerminator c)"
| "inClass (NoneOf cs) c = (c \<notin> set (str cs))"
| "inClass (OneOf cs) c = (c \<in> set (str cs))"

datatype regex =
    Cls cclass
  | Lit string
  | Seq regex regex
  | Alt regex regex
  | Opt regex
  | Star regex
  | Ahead regex         \<comment> \<open>\<open>(?=...)\<close>\<close>
  | NotAhead regex      \<comment> \<open>\<open>(?!...)\<close>\<close>

definition Plus :: "regex \<Rightarrow> regex" where
  "Plus a = Seq a (Star a)"

text \<open>
  \<open>ms r s\<close> lists the lengths of the matches of \<open>r\<close> at the start of \<open>s\<close>, in the order
  in which a backtracking matcher tries them: the left alternative before the right one,
  one more iteration of a greedy quantifier before stopping. An iteration of \<open>*\<close> that
  matches the empty string is not repeated.
\<close>

fun ms :: "regex \<Rightarrow> jsstring \<Rightarrow> nat list" where
  "ms (Cls c) s = (case s of [] \<Rightarrow> [] | x # _ \<Rightarrow> if inClass c x then [1] else [])"
| "ms (Lit l) s = (if prefix (str l) s then [length l] else [])"
| "ms (Seq a b) s = concat (map (\<lambda>n. map (\<lambda>m. n + m) (ms b (drop n s))) (ms a s))"
| "ms (Alt a b) s = ms a s @ ms b s"
| "ms (Opt a) s = ms a s @ [0]"
| "ms (Star a) s =
     concat (map (\<lambda>n. if 0 < n \<and> n \<le> length s
                        then map (\<lambda>m. n + m) (ms (Star a) (drop n s)) else []) (ms a s)) @ [0]"
| "ms (Ahead a) s = (if ms a s = [] then [] else [0])"
| "ms (NotAhead a) s = (if ms a s = [] then [0] else [])"

declare ms.simps(6) [simp del]

text \<open>
  A sufficient syntactic condition for a pattern to match no empty string; it is used to
  show that the loop of the lexer advances.
\<close>

fun nonnull :: "regex \<Rightarrow> bool" where
  "nonnull (Cls c) = True"
| "nonnull (Lit l) = (l \<noteq> [])"
| "nonnull (Seq a b) = (nonnull a \<or> nonnull b)"
| "nonnull (Alt a b) = (nonnull a \<and> nonnull b)"
| "nonnull (Opt a) = False"
| "nonnull (Star a) = False"
| "nonnull (Ahead a) = False"
| "nonnull (NotAhead a) = False"

subsection \<open>The token patterns\<close>

definition kw :: "string \<Rightarrow> regex" where
  \<comment> \<open>a keyword followed by \<open>(?!\w)\<close>\<close>
  "kw s = Seq (Lit s) (NotAhead (Cls WordChar))"

fun alts :: "regex list \<Rightarrow> regex" where
  "alts [] = NotAhead (Lit [])"
| "alts [r] = r"
| "alts (r # rs) = Alt r (alts rs)"

fun seqs :: "regex list \<Rightarrow> regex" where
  "seqs [] = Lit []"
| "seqs [r] = r"
| "seqs (r # rs) = Seq r (seqs rs)"

definition valueTypeNames :: regex where
  "valueTypeNames = alts [Lit ''i32'', Lit ''i64'', Lit ''f32'', Lit ''f64'']"

definition lexerData :: "(ASType \<times> regex) list" where
  "lexerData = [
    (WS, Cls Space),

    (EQ_COMPARISON, alts [Lit ''=='', Lit ''!='']),
    (ASSIGN, Lit ''=''),

    (COMMENT, seqs [Lit ''//'', Star (Cls (NoneOf [CHR 0x0A]))]),

    (BITWISE_SHIFT, alts [seqs [Lit ''>>'', Opt (Lit ''>'')], Lit ''<<'',
       kw ''rotate_right'', kw ''rotate_left'']),
    (ORDER_COMPARISON, alts [seqs [Lit ''>'', Opt (Lit ''='')], seqs [Lit ''<'', Opt (Lit ''='')],
       seqs [Lit ''|>'', Opt (Lit ''=''), Lit ''|''], seqs [Lit ''|<'', Opt (Lit ''=''), Lit ''|'']]),
    (SCALE_OP, alts [Lit ''*'', Lit ''/'', Lit ''|/|'', Lit ''%'', Lit ''|%|'']),
    (BITWISE_OR, Lit ''|''),

    (STORAGE_TYPE, seqs [
       alts [seqs [Lit ''i'', alts [Lit ''32'', Lit ''64''], Lit ''_'', Cls (OneOf ''su''),
               alts [Lit ''8'', Lit ''16'']],
             seqs [Lit ''i64_'', Cls (OneOf ''su''), Lit ''32'']],
       NotAhead (Cls WordChar)]),
    (VALUE_TYPE, seqs [valueTypeNames, NotAhead (Cls WordChar)]),

    (F64_LITERAL, seqs [Plus (Cls Digit), Lit ''.'', Plus (Cls Digit), Lit ''x64'']),
    (F32_LITERAL, seqs [Plus (Cls Digit), Lit ''.'', Plus (Cls Digit), Opt (Lit ''x32'')]),
    (I64_LITERAL, seqs [Plus (Cls Digit), Lit ''x64'']),
    (I32_LITERAL, seqs [Plus (Cls Digit), Opt (Lit ''x32'')]),

    (SUFFIX_OP, alts [Lit ''++'', Lit ''--'']),
    (ADD, Lit ''+''),
    (SUB, Lit ''-''),

    (ADDRESS, Lit ''[''),
    (ADDRESS_CLOSE, Lit '']''),
    (ALLOCATE_PAGES, kw ''allocate_pages''),
    (AND, kw ''and''),
    (AS, kw ''as''),
    (BITWISE_AND, Lit ''&''),
    (BITWISE_XOR, kw ''xor''),
    (BLOCK, Lit ''{''),
    (BLOCK_CLOSE, Lit ''}''),
    (BREAK, kw ''break''),
    (COMMA, Lit '',''),
    (CONTINUE, kw ''continue''),
    (DEFAULT_MEMORY, kw ''default_memory''),
    (DEFAULT_TABLE, kw ''default_table''),
    (DEFINITION, Lit '':''),
    (ELSE, kw ''else''),
    (EXPORT, kw ''export''),
    (FN, kw ''fn''),
    (FN_PTR, kw ''fn_ptr''),
    (FROM, kw ''from''),
    (IF, kw ''if''),
    (IMMUTABLE, kw ''immutable''),
    (IMPORT, kw ''import''),
    (LOOP, kw ''loop''),
    (MISC_INFIX, alts [Lit ''?>'', Lit ''?<'', kw ''with_sign_of'']),
    (VOID, kw ''void''),
    (OR, kw ''or''),
    (PAGES_ALLOCATED, kw ''pages_allocated''),
    (PAREN, Lit ''(''),
    (PAREN_CLOSE, Lit '')''),
    (PTR, kw ''ptr''),
    (RETURN, kw ''return''),
    (SEMICOLON, Lit '';''),
    (STRING, seqs [Lit [CHR 0x22],
       Star (alts [Cls (NoneOf [CHR 0x22, CHR 0x5C]), seqs [Lit [CHR 0x5C], Cls AnyChar]]),
       Lit [CHR 0x22]]),
    (UNARY_MATH_OP, alts [
       seqs [alts [Lit ''abs'', Lit ''ceil'', Lit ''count_ones'', Lit ''floor'',
                   Lit ''leading_zeros'', Lit ''round'', Lit ''sqrt'', Lit ''trailing_zeros'',
                   Lit ''truncate'',
                   seqs [alts [Lit ''to'', Lit ''cast''], Lit ''_'', valueTypeNames]],
             NotAhead (Cls WordChar)],
       Lit ''!'']),
    (YIELD, kw ''yield''),

    (CALL, seqs [Plus (Cls WordChar), Ahead (Lit ''('')]),
    (MEMORY_ACCESS, seqs [Plus (Cls WordChar), Ahead (Lit ''['')]),
    (VARIABLE, Plus (Cls WordChar)),
    (BAD_TOKEN, Cls AnyChar)]"

text \<open>
  The two lists that the loop over \<open>lexerData\<close> fills, and the sticky regular expression
  that joins one capturing group per pattern with \<open>|\<close>.
\<close>

definition ASTypes :: "ASType list" where
  "ASTypes = map fst lexerData"

definition patterns :: "regex list" where
  "patterns = map snd lexerData"

text \<open>
  \<open>regexp.exec\<close> at \<open>lastIndex\<close>: the first group that matches there decides, with its
  first match. The result is the number \<open>i\<close> of that group, counted from 1 as in the
  result array (the index at which the scan \<open>for (var i = 1; ...)\<close> of \<open>lexify\<close> stops,
  since no other group is defined), and the text \<open>result[0]\<close>; \<open>None\<close> is the
  \<open>null\<close> of no match.
\<close>

fun firstGroup :: "regex list \<Rightarrow> nat \<Rightarrow> jsstring \<Rightarrow> (nat \<times> jsstring) option" where
  "firstGroup [] i s = None"
| "firstGroup (r # rs) i s =
     (case ms r s of
        [] \<Rightarrow> firstGroup rs (i + 1) s
      | n # _ \<Rightarrow> Some (i, take n s))"

definition regexp_exec :: "jsstring \<Rightarrow> nat \<Rightarrow> (nat \<times> jsstring) option" where
  "regexp_exec text lastIndex = firstGroup patterns 1 (drop lastIndex text)"

subsection \<open>lexify\<close>

record token =
  tokASType :: ASType
  tokText :: jsstring
  tokLength :: nat
  tokPos :: nat

datatype lexError = TypeErrorNullResult

text \<open>
  The loop of \<open>lexify\<close>. A \<open>null\<close> result of \<open>exec\<close> makes \<open>result.length\<close> raise a
  TypeError; a match of length 0 would leave \<open>lastIndex\<close> where it is and the loop would
  run forever, which is the value \<open>None\<close> of the partial function.
\<close>

partial_function (option) lexifyLoop ::
  "jsstring \<Rightarrow> nat \<Rightarrow> token list \<Rightarrow> (lexError + token list) option" where
  "lexifyLoop text lastIndex tokens =
     (if lastIndex < length text then
        (case regexp_exec text lastIndex of
           None \<Rightarrow> Some (Inl TypeErrorNullResult)
         | Some (i, matched) \<Rightarrow>
             lexifyLoop text (lastIndex + length matched)
               (tokens @ [\<lparr>tokASType = ASTypes ! (i - 1), tokText = matched,
                           tokLength = length matched, tokPos = lastIndex\<rparr>]))
      else Some (Inr tokens))"

definition lexify :: "jsstring \<Rightarrow> (lexError + token list) option" where
  "lexify text =
     (case lexifyLoop text 0 [] of
        None \<Rightarrow> None
      | Some (Inl e) \<Rightarrow> Some (Inl e)
      | Some (Inr tokens) \<Rightarrow>
          Some (Inr (tokens @ [\<lparr>tokASType = END_OF_INPUT, tokText = str [CHR 0x0A],
                                 tokLength = 1, tokPos = length text\<rparr>])))"

section \<open>Definitions and index spaces (compiler/parser.js, compiler/moduleCodeGen.js)\<close>

text \<open>
  The record of a named entity that \<open>define\<close> creates. The fields \<open>returnType\<close> and
  \<open>paramTypes\<close> exist for functions and function pointers, \<open>returnType\<close> and the
  storage fields for pointers; name resolution lets a call refer only to the former and a
  memory access only to the latter. The fields that point back into the syntax tree
  (\<open>token\<close>, \<open>scope\<close>, \<open>body\<close>, \<open>initializer\<close>) are left out.
\<close>

record defn =
  defASType :: ASType
  name :: string
  kind :: string
  index :: nat
  isGlobal :: bool
  mutable :: bool
  runType :: runType
  returnType :: runType
  paramTypes :: "runType list"
  signatureIndex :: nat
  storageSize :: nat
  extendedType :: bool
  storageSigned :: string
  storageBits :: string

text \<open>
  The four lists of the global scope (\<open>imports.function\<close>, \<open>imports.global\<close>,
  \<open>variables\<close> and \<open>functions\<close>) that \<open>orderGlobals\<close> walks. \<open>define\<close> pushes a
  definition onto exactly one of them, so no object is shared between two lists.
\<close>

record globalScope =
  importsFunction :: "defn list"
  importsGlobal :: "defn list"
  scopeVariables :: "defn list"
  scopeFunctions :: "defn list"

text \<open>The loop \<open>for (let i = 0; i < ds.length; i++) ds[i].index = i + offset\<close>.\<close>

function setIndices :: "nat \<Rightarrow> nat \<Rightarrow> defn list \<Rightarrow> defn list" where
  "setIndices i offset ds =
     (if i < length ds
      then setIndices (i + 1) offset (ds[i := (ds ! i)\<lparr>index := i + offset\<rparr>])
      else ds)"
  by pat_completeness auto
termination
  by (relation "measure (\<lambda>(i, offset, ds). length ds - i)") auto

declare setIndices.simps [simp del]

definition orderGlobals :: "globalScope \<Rightarrow> globalScope" where
  "orderGlobals scope =
     (let fnImports = importsFunction scope;
          varImports = importsGlobal scope
      in scope\<lparr>importsFunction := setIndices 0 0 fnImports,
               scopeFunctions := setIndices 0 (length fnImports) (scopeFunctions scope),
               importsGlobal := setIndices 0 0 varImports,
               scopeVariables := setIndices 0 (length varImports) (scopeVariables scope)\<rparr>)"

section \<open>Pointer definitions (compiler/parser.js)\<close>

text \<open>
  The part of \<open>define\<close> that reads the storage type of a pointer. The regular expression
  \<open>/(.(..))_?(.)?(..?)?/\<close> takes the three characters of the value type, the two digits
  of its width, then after an optional underscore the sign letter and the up to two
  digits of a narrower width. The storage size is the width in bytes.
\<close>

definition digitsToNat :: "string \<Rightarrow> nat" where
  \<comment> \<open>\<open>Number.parseInt\<close> on a text of decimal digits\<close>
  "digitsToNat s = foldl (\<lambda>acc c. 10 * acc + (of_char c - 48)) 0 s"

definition pointerDefinition :: "defn \<Rightarrow> string \<Rightarrow> defn" where
  "pointerDefinition definition storageType =
     (let theReturnType = take 3 storageType;
          bits = take 2 (drop 1 storageType);
          rest = drop 3 storageType;
          rest' = (if take 1 rest = ''_'' then drop 1 rest else rest);
          theStorageSigned = take 1 rest';
          theStorageBits = take 2 (drop 1 rest');
          theExtendedType = (theStorageBits \<noteq> [])
      in definition\<lparr>extendedType := theExtendedType, storageSigned := theStorageSigned,
           storageBits := theStorageBits, runType := ''i32'', returnType := theReturnType,
           storageSize := digitsToNat (if theExtendedType then theStorageBits else bits) div 8\<rparr>)"

text \<open>
  The texts that can stand as the storage type of a pointer: the child of \<open>PTR\<close> is a
  \<open>STORAGE_TYPE\<close> or a \<open>VALUE_TYPE\<close> token, and these are the texts that the patterns
  of the lexer for the two kinds match.
\<close>

definition storageTypeTexts :: "string list" where
  "storageTypeTexts = [''i32_s8'', ''i32_u8'', ''i32_s16'', ''i32_u16'',
     ''i64_s8'', ''i64_u8'', ''i64_s16'', ''i64_u16'', ''i64_s32'', ''i64_u32'',
     ''i32'', ''i64'', ''f32'', ''f64'']"

section \<open>Syntax tree (compiler/parser.js)\<close>

text \<open>
  A number held by a literal: an integer, the \<open>NaN\<close> of a text that does not start with a
  digit, or the result of \<open>parseFloat\<close>, which is kept as the text it was read from.
\<close>

datatype jsnumber = IntNum int | NaN | FloatNum string

text \<open>
  The \<open>meta\<close> field of a node is \<open>null\<close> at first. Name resolution stores the referenced
  definition there, and the validator the selected operator, the value of a literal, a
  temporary variable, the jump target of a break, or the yield and return points of a
  loop. The points are nodes of which only the run type is ever read, so a point is
  represented by its run type.
\<close>

datatype meta =
    NullMeta
  | OpInfoMeta opInfo
  | LiteralMeta jsnumber runType
  | DefinitionMeta defn
  | TempVariableMeta defn
  | JumpTargetMeta
  | LoopMeta "runType list" "runType list" nat

text \<open>
  An AST node as \<open>createASTNode\<close> builds it, without the back references \<open>parent\<close> and
  \<open>scope\<close>: what the validator and the code generator read from them is passed to them
  as a context. \<open>token\<close> is the text of the node's token.
\<close>

datatype node =
  Node (ASType: ASType) (token: string) (meta: meta) (runType: runType)
    (alwaysEscapes: bool) (dropValue: bool) (children: "node list")

definition createASTNode :: "ASType \<Rightarrow> string \<Rightarrow> node list \<Rightarrow> node" where
  \<comment> \<open>a node as the parser leaves it, with the children placed on it\<close>
  "createASTNode ty tok cs = Node ty tok NullMeta ''void'' False False cs"

definition setDropValue :: "node \<Rightarrow> node" where
  "setDropValue n =
     Node (ASType n) (token n) (meta n) (node.runType n) (alwaysEscapes n) True (children n)"

section \<open>Compile errors (compiler/compileError.js)\<close>

text \<open>
  A \<open>CompileError\<close> carries a message and a data object, here the list of its keys and
  values. The other errors are those that the JavaScript engine raises itself.
\<close>

datatype payload = PNode node | PNodes "node list" | PType runType | PDefinition defn

datatype error =
    CompileError string "(string \<times> payload) list"
  | ReferenceError string
  | TypeError string
  | NotModelled string

section \<open>Semantic validation (compiler/validation.js)\<close>

subsection \<open>Context and state\<close>

text \<open>
  What \<open>validate\<close> reads from the surroundings of a node: the type of its parent, the
  definition of the enclosing function (\<open>None\<close> outside of any function, where the walk
  up the ancestors ends in \<open>null\<close>), the number of loops between the node and that
  function (the loops that the walk of a \<open>return\<close> meets), and the lengths of the lists
  \<open>scope.defaultMemory\<close> and \<open>scope.defaultTable\<close>.
\<close>

record vctx =
  parentType :: ASType
  fnMeta :: "defn option"
  loopsInFunction :: nat
  defaultMemoryLength :: nat
  defaultTableLength :: nat

text \<open>
  What \<open>validate\<close> mutates apart from the node itself: the \<open>meta\<close> objects of the loops
  that enclose the node, innermost first, and the scope of the enclosing function, to
  which anonymous local variables are added.
\<close>

record loopPoints =
  yieldPoints :: "runType list"
  returnPoints :: "runType list"

record vstate =
  loops :: "loopPoints list"
  fnNames :: "(string \<times> defn) list"
  fnVariables :: "defn list"

subsection \<open>Utility functions\<close>

definition emptyDefinition :: defn where
  "emptyDefinition = \<lparr>defASType = VARIABLE, name = [], kind = [], index = 0, isGlobal = False,
     mutable = False, runType = [], returnType = ''undefined'', paramTypes = [],
     signatureIndex = 0, storageSize = 0, extendedType = False, storageSigned = [],
     storageBits = []\<rparr>"

definition anonymousLocalVariable ::
  "vctx \<Rightarrow> runType \<Rightarrow> vstate \<Rightarrow> error + defn \<times> vstate" where
  "anonymousLocalVariable ctx rt st =
     (case fnMeta ctx of
        None \<Rightarrow> Inl (TypeError ''findAncestorOfType(...) is null'')
      | Some fn \<Rightarrow>
          (let name = ''tmp-'' @ rt in
           case map_of (fnNames st) name of
             Some definition \<Rightarrow> Inr (definition, st)
           | None \<Rightarrow>
               (let definition = emptyDefinition\<lparr>defASType := VARIABLE, name := name,
                      kind := ''global'', index := 0, isGlobal := False, mutable := True,
                      runType := rt\<rparr>
                in Inr (definition, st\<lparr>fnNames := (name, definition) # fnNames st,
                                        fnVariables := fnVariables st @ [definition]\<rparr>))))"

text \<open>
  \<open>parseInt(text, 10)\<close> on a text without leading white space or sign, as the literal
  tokens of the lexer are: the value of the longest prefix of decimal digits, and \<open>NaN\<close>
  when the text starts with no digit. The value is exact; rounding to a double changes
  none of the comparisons made with it below.
\<close>

definition isDigitChar :: "char \<Rightarrow> bool" where
  "isDigitChar c \<longleftrightarrow> 48 \<le> (of_char c :: nat) \<and> (of_char c :: nat) \<le> 57"

definition parseInt :: "string \<Rightarrow> jsnumber" where
  "parseInt s =
     (let digits = takeWhile isDigitChar s in
      if digits = [] then NaN
      else IntNum (foldl (\<lambda>acc c. 10 * acc + (int (of_char c) - 48)) 0 digits))"

fun replaceFirst :: "string \<Rightarrow> string \<Rightarrow> string \<Rightarrow> string" where
  \<comment> \<open>\<open>s.replace(pattern, replacement)\<close> with a string pattern: the first occurrence\<close>
  "replaceFirst pattern replacement [] = (if pattern = [] then replacement else [])"
| "replaceFirst pattern replacement (c # s) =
     (if prefix pattern (c # s) then replacement @ drop (length pattern) (c # s)
      else c # replaceFirst pattern replacement s)"

definition sliceEnd :: "string \<Rightarrow> nat \<Rightarrow> string" where
  \<comment> \<open>\<open>s.slice(0, -k)\<close>\<close>
  "sliceEnd s k = take (length s - k) s"

definition greaterThan :: "jsnumber \<Rightarrow> int \<Rightarrow> bool" where
  \<comment> \<open>\<open>value > limit\<close> for a value that \<open>parseInt\<close> returned; false on \<open>NaN\<close>\<close>
  "greaterThan v limit = (case v of IntNum n \<Rightarrow> n > limit | _ \<Rightarrow> False)"

definition isSafeInteger :: "jsnumber \<Rightarrow> bool" where
  "isSafeInteger v = (case v of IntNum n \<Rightarrow> \<bar>n\<bar> \<le> 2 ^ 53 - 1 | _ \<Rightarrow> False)"

definition negate :: "jsnumber \<Rightarrow> jsnumber" where
  "negate v = (case v of IntNum n \<Rightarrow> IntNum (- n) | NaN \<Rightarrow> NaN
     | FloatNum t \<Rightarrow> FloatNum (CHR ''-'' # t))"

text \<open>
  \<open>node.meta.runType\<close> and \<open>node.meta.returnType\<close>: a TypeError on \<open>null\<close>, the field of a
  definition or of a literal, and \<open>undefined\<close> on an object without the field.
\<close>

definition metaRunType :: "meta \<Rightarrow> error + runType" where
  "metaRunType m =
     (case m of
        NullMeta \<Rightarrow> Inl (TypeError ''meta is null'')
      | DefinitionMeta d \<Rightarrow> Inr (defn.runType d)
      | LiteralMeta v rt \<Rightarrow> Inr rt
      | _ \<Rightarrow> Inr ''undefined'')"

definition metaReturnType :: "meta \<Rightarrow> error + runType" where
  "metaReturnType m =
     (case m of
        NullMeta \<Rightarrow> Inl (TypeError ''meta is null'')
      | DefinitionMeta d \<Rightarrow> Inr (defn.returnType d)
      | OpInfoMeta oi \<Rightarrow> Inr (opInfo.returnType oi)
      | _ \<Rightarrow> Inr ''undefined'')"

definition metaMutable :: "meta \<Rightarrow> error + bool" where
  "metaMutable m =
     (case m of
        NullMeta \<Rightarrow> Inl (TypeError ''meta is null'')
      | DefinitionMeta d \<Rightarrow> Inr (mutable d)
      | _ \<Rightarrow> Inr False)"

definition binaryOperatorTypes :: "ASType list" where
  "binaryOperatorTypes = [ADD, SUB, SCALE_OP, BITWISE_AND, BITWISE_OR, BITWISE_SHIFT,
     BITWISE_XOR, MISC_INFIX, EQ_COMPARISON, ORDER_COMPARISON]"

text \<open>The two pushes onto the point lists of the enclosing loops.\<close>

definition pushYieldPoint :: "runType \<Rightarrow> vstate \<Rightarrow> vstate" where
  \<comment> \<open>\<open>loop.meta.yieldPoints.push(node)\<close> on the innermost loop\<close>
  "pushYieldPoint rt st =
     (case loops st of
        [] \<Rightarrow> st
      | l # ls \<Rightarrow> st\<lparr>loops := l\<lparr>yieldPoints := yieldPoints l @ [rt]\<rparr> # ls\<rparr>)"

definition setYieldPoint :: "nat \<Rightarrow> runType \<Rightarrow> vstate \<Rightarrow> vstate" where
  \<comment> \<open>the assignment \<open>node.runType = runType\<close> on the node that was pushed at place \<open>k\<close>\<close>
  "setYieldPoint k rt st =
     (case loops st of
        [] \<Rightarrow> st
      | l # ls \<Rightarrow> st\<lparr>loops := l\<lparr>yieldPoints := (yieldPoints l)[k := rt]\<rparr> # ls\<rparr>)"

definition pushReturnPoint :: "nat \<Rightarrow> runType \<Rightarrow> vstate \<Rightarrow> vstate" where
  \<comment> \<open>\<open>ancestor.meta.returnPoints.push(node)\<close> on the \<open>k\<close> loops up to the function\<close>
  "pushReturnPoint k rt st =
     st\<lparr>loops := map (\<lambda>l. l\<lparr>returnPoints := returnPoints l @ [rt]\<rparr>) (take k (loops st))
                     @ drop k (loops st)\<rparr>"

text \<open>
  The end of the \<open>LOOP\<close> case, once the body is validated: the checks on the yield and
  return points that the body has recorded. The point lists hold the run types of the
  recorded nodes, which is all that the case reads of them; so do the meta of the loop and
  the data of the error \<open>Inconsistent Type For Loop\<close>.
\<close>

fun firstInconsistent :: "runType \<Rightarrow> runType list \<Rightarrow> runType option" where
  \<comment> \<open>the loop \<open>for (let i = 1; ...)\<close>: the first point whose run type differs\<close>
  "firstInconsistent rt [] = None"
| "firstInconsistent rt (y # ys) = (if y \<noteq> rt then Some y else firstInconsistent rt ys)"

definition finishLoop ::
  "string \<Rightarrow> runType \<Rightarrow> bool \<Rightarrow> bool \<Rightarrow> node \<Rightarrow> loopPoints \<Rightarrow> error + node" where
  "finishLoop tok rt ae dv body points =
     (let theMeta = LoopMeta (yieldPoints points) (returnPoints points) 0 in
      case yieldPoints points of
        [] \<Rightarrow>
          (case returnPoints points of
             [] \<Rightarrow> Inl (CompileError ''Infinite Loop''
                     [(''node'', PNode (Node LOOP tok theMeta rt ae dv [body]))])
           | r # rs \<Rightarrow> Inr (Node LOOP tok theMeta r True dv [body]))
      | y # ys \<Rightarrow>
          (case firstInconsistent y ys of
             Some second \<Rightarrow> Inl (CompileError ''Inconsistent Type For Loop''
               [(''first'', PType y), (''second'', PType second)])
           | None \<Rightarrow> Inr (Node LOOP tok theMeta y ae dv [body])))"

subsection \<open>The ends of the cases\<close>

text \<open>
  Each function below is what a case of \<open>validate\<close> does once its children are
  validated: the checks in their order, and the node with its new \<open>meta\<close>, \<open>runType\<close> and
  \<open>alwaysEscapes\<close>. A node in the data of an error is the node as it is when the error is
  thrown: its children are validated as far as the case has come, and its \<open>runType\<close> is
  still the one it had on entry, since \<open>node.runType\<close> is assigned after the \<open>switch\<close>.
\<close>

definition unreachableCode :: "node \<Rightarrow> node \<Rightarrow> error" where
  "unreachableCode escaping dependent =
     CompileError ''Unreachable Code'' [(''node'', PNode escaping), (''unreachable'', PNode dependent)]"

definition finishOperator ::
  "ASType \<Rightarrow> string \<Rightarrow> meta \<Rightarrow> runType \<Rightarrow> bool \<Rightarrow> bool \<Rightarrow> node list \<Rightarrow> string
     \<Rightarrow> error + node" where
  \<comment> \<open>the operator cases; \<open>key\<close> is the key built from the run types of the operands\<close>
  "finishOperator ty tok m rt ae dv cs key =
     (case operatorTable tok of
        None \<Rightarrow> Inl (TypeError ''operatorTable[token.text] is undefined'')
      | Some entries \<Rightarrow>
          (case find alwaysEscapes cs of
             Some child \<Rightarrow> Inl (unreachableCode child (Node ty tok m rt ae dv cs))
           | None \<Rightarrow>
               (case map_of entries key of
                  None \<Rightarrow> Inl (CompileError ''Undefined Operator''
                    [(''node'', PNode (Node ty tok m rt ae dv cs))])
                | Some opInfo \<Rightarrow>
                    Inr (Node ty tok (OpInfoMeta opInfo) (opInfo.returnType opInfo) ae dv cs))))"

definition finishAnd ::
  "string \<Rightarrow> meta \<Rightarrow> runType \<Rightarrow> bool \<Rightarrow> bool \<Rightarrow> node \<Rightarrow> node \<Rightarrow> error + node" where
  "finishAnd tok m rt ae dv left right =
     (if node.runType right \<noteq> node.runType left then
        Inl (CompileError ''Inconsistent Type For Boolean''
          [(''node'', PNode (Node AND tok m rt ae dv [left, right])),
           (''leftType'', PType (node.runType left)), (''rightType'', PType (node.runType right))])
      else if node.runType left = ''void'' then
        Inl (CompileError ''Non-Numeric Type For Boolean''
          [(''node'', PNode (Node AND tok m rt ae dv [left, right])),
           (''runType'', PType (node.runType left))])
      else Inr (Node AND tok m (node.runType left) ae dv [left, right]))"

text \<open>
  In the \<open>OR\<close> case the data object of the error is written \<open>{node, leftType, rightType}\<close>,
  and neither \<open>leftType\<close> nor \<open>rightType\<close> is declared in the block of the case or
  anywhere around it: evaluating the object raises a ReferenceError before the
  CompileError is constructed.
\<close>

definition finishOr ::
  "vctx \<Rightarrow> string \<Rightarrow> meta \<Rightarrow> runType \<Rightarrow> bool \<Rightarrow> bool \<Rightarrow> node \<Rightarrow> node \<Rightarrow> vstate
     \<Rightarrow> error + node \<times> vstate" where
  "finishOr ctx tok m rt ae dv left right st =
     (if node.runType right \<noteq> node.runType left then
        Inl (ReferenceError ''leftType is not defined'')
      else if node.runType left = ''void'' then
        Inl (CompileError ''Non-Numeric Type For Boolean''
          [(''node'', PNode (Node OR tok m rt ae dv [left, right])),
           (''runType'', PType (node.runType left))])
      else
        (case anonymousLocalVariable ctx (node.runType left) st of
           Inl e \<Rightarrow> Inl e
         | Inr (tempVariable, st') \<Rightarrow>
             Inr (Node OR tok (TempVariableMeta tempVariable) (node.runType left) ae dv
                    [left, right], st')))"

definition finishAssign ::
  "string \<Rightarrow> meta \<Rightarrow> runType \<Rightarrow> bool \<Rightarrow> bool \<Rightarrow> node \<Rightarrow> node \<Rightarrow> runType \<Rightarrow> error + node" where
  "finishAssign tok m rt ae dv left right leftType =
     (if alwaysEscapes right then
        Inl (unreachableCode right (Node ASSIGN tok m rt ae dv [left, right]))
      else if node.runType right \<noteq> leftType then
        Inl (CompileError ''Assignment Type Mismatch''
          [(''left'', PNode (if ASType left = DEFINITION
                              then (case children left of c # cs \<Rightarrow> c | [] \<Rightarrow> left) else left)),
           (''right'', PNode right), (''runType'', PType leftType)])
      else Inr (Node ASSIGN tok m leftType ae dv [left, right]))"

definition finishElse ::
  "string \<Rightarrow> meta \<Rightarrow> runType \<Rightarrow> bool \<Rightarrow> bool \<Rightarrow> node \<Rightarrow> node \<Rightarrow> node \<Rightarrow> error + node" where
  \<comment> \<open>\<open>ifNode\<close> is the IF child with its validated condition and body\<close>
  "finishElse tok m rt ae dv ifNode ifBody elseBody =
     (if alwaysEscapes ifBody then
        (if alwaysEscapes elseBody
         then Inr (Node ELSE tok m (node.runType ifBody) True dv [ifNode, elseBody])
         else Inr (Node ELSE tok m (node.runType elseBody) ae dv [ifNode, elseBody]))
      else if node.runType ifBody \<noteq> node.runType elseBody then
        Inl (CompileError ''Inconsistent Type''
          [(''ifNode'', PNode ifNode),
           (''elseNode'', PNode (Node ELSE tok m rt ae dv [ifNode, elseBody])),
           (''ifType'', PType (node.runType ifBody)), (''elseType'', PType (node.runType elseBody))])
      else Inr (Node ELSE tok m (node.runType ifBody) ae dv [ifNode, elseBody]))"

definition badCondition :: "node \<Rightarrow> node \<Rightarrow> error option" where
  \<comment> \<open>the two checks on the condition of an \<open>if\<close>\<close>
  "badCondition condition node =
     (if alwaysEscapes condition then Some (unreachableCode condition node)
      else if node.runType condition = ''void''
      then Some (CompileError ''Bad Condition'' [(''node'', PNode condition)])
      else None)"

definition finishReturn ::
  "vctx \<Rightarrow> string \<Rightarrow> meta \<Rightarrow> runType \<Rightarrow> bool \<Rightarrow> bool \<Rightarrow> node list \<Rightarrow> runType \<Rightarrow> vstate
     \<Rightarrow> error + node \<times> vstate" where
  \<comment> \<open>the walk up to the enclosing function and the check of the returned type;
      \<open>rt\<close> is the run type of the node on entry, \<open>returned\<close> the type that it returns\<close>
  "finishReturn ctx tok m rt ae dv cs returned st =
     (case fnMeta ctx of
        None \<Rightarrow> Inl (TypeError ''ancestor is null'')
      | Some fn \<Rightarrow>
          (if defn.returnType fn \<noteq> returned then
             Inl (CompileError ''Explicit Return Type Mismatch''
               [(''node'', PNode (Node RETURN tok m rt ae dv cs)),
                (''definition'', PDefinition fn), (''runType'', PType returned)])
           else Inr (Node RETURN tok m returned True dv cs,
                  pushReturnPoint (loopsInFunction ctx) returned st)))"

definition validateI32Literal ::
  "vctx \<Rightarrow> string \<Rightarrow> meta \<Rightarrow> runType \<Rightarrow> bool \<Rightarrow> bool \<Rightarrow> node list \<Rightarrow> error + node" where
  "validateI32Literal ctx tok m rt ae dv cs =
     (let theValue = parseInt (replaceFirst ''x32'' [] tok);
          negative = (parentType ctx = NEG)
      in if greaterThan theValue (if negative then 2147483648 else 4294967295) then
           Inl (CompileError ''Integer Literal Out of Range''
             [(''node'', PNode (Node I32_LITERAL tok m rt ae dv cs))])
         else Inr (Node I32_LITERAL tok (LiteralMeta theValue ''i32'') ''i32'' ae dv cs))"

definition validateI64Literal ::
  "vctx \<Rightarrow> string \<Rightarrow> meta \<Rightarrow> runType \<Rightarrow> bool \<Rightarrow> bool \<Rightarrow> node list \<Rightarrow> error + node" where
  "validateI64Literal ctx tok m rt ae dv cs =
     (let theValue = parseInt (sliceEnd tok 3);
          negative = (parentType ctx = NEG)
      in if \<not> isSafeInteger (if negative then negate theValue else theValue) then
           Inl (CompileError ''Integer Literal Out of Range''
             [(''node'', PNode (Node I64_LITERAL tok m rt ae dv cs))])
         else Inr (Node I64_LITERAL tok (LiteralMeta theValue ''i64'') ''i64'' ae dv cs))"

subsection \<open>validate\<close>

text \<open>
  \<open>validate ctx node valueRequired st\<close> returns the node as the call leaves it, with its
  validated children, and the new state; the run type that the JavaScript function
  returns is the \<open>runType\<close> of that node. \<open>validateStatements\<close> is the loop over the
  children of a block or parenthesis, \<open>validateArguments\<close> the loop over the arguments of
  a call. The cases of the top level of a module (\<open>DEFAULT_MEMORY\<close>, \<open>DEFAULT_TABLE\<close>,
  \<open>EXPORT\<close>, \<open>IMPORT\<close>, \<open>INIT_EXPR\<close>, \<open>ROOT\<close>) are not modelled. A node with fewer
  children than its case takes apart makes the JavaScript read a field of \<open>undefined\<close>.
\<close>

function (sequential) validate :: "vctx \<Rightarrow> node \<Rightarrow> bool \<Rightarrow> vstate \<Rightarrow> error + node \<times> vstate"
  and validateStatements ::
    "vctx \<Rightarrow> node list \<Rightarrow> bool \<Rightarrow> vstate \<Rightarrow> error + node list \<times> vstate"
  and validateArguments ::
    "vctx \<Rightarrow> (node list \<Rightarrow> node) \<Rightarrow> node list \<Rightarrow> node list \<Rightarrow> runType list \<Rightarrow> vstate
       \<Rightarrow> error + node list \<times> vstate"
where
  "validate ctx (Node ty tok m rt ae dv cs) valueRequired st =
    (if ty \<in> set binaryOperatorTypes then
       (case cs of
          left # right # others \<Rightarrow>
            (case validate (ctx\<lparr>parentType := ty\<rparr>) left True st of
               Inl e \<Rightarrow> Inl e
             | Inr (left', st1) \<Rightarrow>
                 (case validate (ctx\<lparr>parentType := ty\<rparr>) right True st1 of
                    Inl e \<Rightarrow> Inl e
                  | Inr (right', st2) \<Rightarrow>
                      (case finishOperator ty tok m rt ae dv (left' # right' # others)
                              (node.runType left' @ '','' @ node.runType right') of
                         Inl e \<Rightarrow> Inl e
                       | Inr node' \<Rightarrow> Inr (node', st2))))
        | _ \<Rightarrow> Inl (TypeError ''child is undefined''))

     else if ty = ALLOCATE_PAGES \<or> ty = UNARY_MATH_OP then
       (case cs of
          child # others \<Rightarrow>
            (case validate (ctx\<lparr>parentType := ty\<rparr>) child True st of
               Inl e \<Rightarrow> Inl e
             | Inr (child', st1) \<Rightarrow>
                 (case finishOperator ty tok m rt ae dv (child' # others) (node.runType child') of
                    Inl e \<Rightarrow> Inl e
                  | Inr node' \<Rightarrow> Inr (node', st1)))
        | _ \<Rightarrow> Inl (TypeError ''child is undefined''))

     else if ty = AND then
       (case cs of
          [left, right] \<Rightarrow>
            (case validate (ctx\<lparr>parentType := ty\<rparr>) left True st of
               Inl e \<Rightarrow> Inl e
             | Inr (left', st1) \<Rightarrow>
                 if alwaysEscapes left'
                 then Inl (unreachableCode left' (Node ty tok m rt ae dv [left', right]))
                 else
                   (case validate (ctx\<lparr>parentType := ty\<rparr>) right True st1 of
                      Inl e \<Rightarrow> Inl e
                    | Inr (right', st2) \<Rightarrow>
                        (case finishAnd tok m rt ae dv left' right' of
                           Inl e \<Rightarrow> Inl e
                         | Inr node' \<Rightarrow> Inr (node', st2))))
        | _ \<Rightarrow> Inl (TypeError ''child is undefined''))

     else if ty = ASSIGN then
       (case cs of
          [left, right] \<Rightarrow>
            (case metaRunType (meta left) of
               Inl e \<Rightarrow> Inl e
             | Inr leftRunType \<Rightarrow>
                 if ASType left = MEMORY_ACCESS then
                   (case validate (ctx\<lparr>parentType := ty\<rparr>) left valueRequired st of
                      Inl e \<Rightarrow> Inl e
                    | Inr (left', st1) \<Rightarrow>
                        (case metaReturnType (meta left') of
                           Inl e \<Rightarrow> Inl e
                         | Inr leftType \<Rightarrow>
                             (case (if valueRequired
                                    then map_sum id (\<lambda>(d, s). (TempVariableMeta d, s))
                                           (anonymousLocalVariable ctx leftType st1)
                                    else Inr (m, st1)) of
                                Inl e \<Rightarrow> Inl e
                              | Inr (m', st2) \<Rightarrow>
                                  (case validate (ctx\<lparr>parentType := ty\<rparr>) right True st2 of
                                     Inl e \<Rightarrow> Inl e
                                   | Inr (right', st3) \<Rightarrow>
                                       (case finishAssign tok m' rt ae dv left' right' leftType of
                                          Inl e \<Rightarrow> Inl e
                                        | Inr node' \<Rightarrow> Inr (node', st3))))))
                 else
                   (case (if ASType left \<noteq> DEFINITION
                          then metaMutable (meta left) else Inr True) of
                      Inl e \<Rightarrow> Inl e
                    | Inr isMutable \<Rightarrow>
                        if \<not> isMutable then
                          Inl (CompileError ''Assignment To Immutable''
                            [(''node'', PNode (Node ty tok m rt ae dv cs))])
                        else
                          (case validate (ctx\<lparr>parentType := ty\<rparr>) right True st of
                             Inl e \<Rightarrow> Inl e
                           | Inr (right', st1) \<Rightarrow>
                               (case finishAssign tok m rt ae dv left right' leftRunType of
                                  Inl e \<Rightarrow> Inl e
                                | Inr node' \<Rightarrow> Inr (node', st1)))))
        | _ \<Rightarrow> Inl (TypeError ''child is undefined''))

     else if ty = BLOCK \<or> ty = PAREN then
       (case cs of
          [] \<Rightarrow> Inr (Node ty tok m rt ae dv cs, st)
        | child # others \<Rightarrow>
            (case validateStatements (ctx\<lparr>parentType := ty\<rparr>) (child # others) valueRequired st of
               Inl e \<Rightarrow> Inl e
             | Inr (cs', st1) \<Rightarrow>
                 Inr (Node ty tok m (if valueRequired then node.runType (last cs') else rt)
                        (alwaysEscapes (last cs')) dv cs', st1)))

     else if ty = BREAK \<or> ty = YIELD then
       (case loops st of
          [] \<Rightarrow> Inl (CompileError ''Misplaced Break/Yield/Continue''
                  [(''node'', PNode (Node ty tok m rt ae dv cs))])
        | loop # outer \<Rightarrow>
            (case cs of
               [child] \<Rightarrow>
                 (case validate (ctx\<lparr>parentType := ty\<rparr>) child True (pushYieldPoint rt st) of
                    Inl e \<Rightarrow> Inl e
                  | Inr (child', st1) \<Rightarrow>
                      if alwaysEscapes child'
                      then Inl (unreachableCode child'
                             (Node ty tok JumpTargetMeta rt True dv [child']))
                      else Inr (Node ty tok JumpTargetMeta (node.runType child') True dv [child'],
                             setYieldPoint (length (yieldPoints loop)) (node.runType child') st1))
             | _ \<Rightarrow> Inr (Node ty tok JumpTargetMeta rt True dv cs, pushYieldPoint rt st)))

     else if ty = CALL then
       (case m of
          DefinitionMeta fn \<Rightarrow>
            (case cs of
               Node aty atok am art aae adv args # others \<Rightarrow>
                 if length args \<noteq> length (paramTypes fn) then
                   Inl (CompileError ''Wrong Number of Arguments''
                     [(''node'', PNode (Node ty tok m rt ae dv cs)), (''args'', PNodes args)])
                 else
                   (case validateArguments (ctx\<lparr>parentType := aty\<rparr>)
                           (\<lambda>args'. Node ty tok m rt ae dv (Node aty atok am art aae adv args' # others))
                           [] args (paramTypes fn) st of
                      Inl e \<Rightarrow> Inl e
                    | Inr (args', st1) \<Rightarrow>
                        Inr (Node ty tok m (defn.returnType fn) ae dv
                               (Node aty atok am art aae adv args' # others), st1))
             | _ \<Rightarrow> Inl (TypeError ''child is undefined''))
        | _ \<Rightarrow> Inl (TypeError ''fn.paramTypes is undefined''))

     else if ty = CONTINUE then
       (case loops st of
          [] \<Rightarrow> Inl (CompileError ''Misplaced Break/Yield/Continue''
                  [(''node'', PNode (Node ty tok m rt ae dv cs))])
        | loop # outer \<Rightarrow> Inr (Node ty tok JumpTargetMeta rt True dv cs, st))

     else if ty = DEFINITION then
       (case cs of
          nameNode # spec # others \<Rightarrow>
            (case validate (ctx\<lparr>parentType := ty\<rparr>) spec False st of
               Inl e \<Rightarrow> Inl e
             | Inr (spec', st1) \<Rightarrow>
                 (case metaRunType m of
                    Inl e \<Rightarrow> Inl e
                  | Inr rt' \<Rightarrow> Inr (Node ty tok m rt' ae dv (nameNode # spec' # others), st1)))
        | _ \<Rightarrow> Inl (TypeError ''child is undefined''))

     else if ty = ELSE then
       (case cs of
          [Node ity itok im irt iae idv (condition # ifBody # iothers), elseBody] \<Rightarrow>
            (case validate (ctx\<lparr>parentType := ity\<rparr>) condition True st of
               Inl e \<Rightarrow> Inl e
             | Inr (condition', st1) \<Rightarrow>
                 (case badCondition condition'
                         (Node ty tok m rt ae dv
                            [Node ity itok im irt iae idv (condition' # ifBody # iothers), elseBody]) of
                    Some e \<Rightarrow> Inl e
                  | None \<Rightarrow>
                      (case validate (ctx\<lparr>parentType := ity\<rparr>) ifBody valueRequired st1 of
                         Inl e \<Rightarrow> Inl e
                       | Inr (ifBody', st2) \<Rightarrow>
                           (case validate (ctx\<lparr>parentType := ty\<rparr>) elseBody valueRequired st2 of
                              Inl e \<Rightarrow> Inl e
                            | Inr (elseBody', st3) \<Rightarrow>
                                (case finishElse tok m rt ae dv
                                        (Node ity itok im irt iae idv (condition' # ifBody' # iothers))
                                        ifBody' elseBody' of
                                   Inl e \<Rightarrow> Inl e
                                 | Inr node' \<Rightarrow> Inr (node', st3))))))
        | _ \<Rightarrow> Inl (TypeError ''child is undefined''))

     else if ty = F32_LITERAL then
       Inr (Node ty tok (LiteralMeta (FloatNum (replaceFirst ''x32'' [] tok)) ''f32'') ''f32''
              ae dv cs, st)

     else if ty = F64_LITERAL then
       Inr (Node ty tok (LiteralMeta (FloatNum (sliceEnd tok 3)) ''f64'') ''f64'' ae dv cs, st)

     else if ty = FN then
       (case m of
          DefinitionMeta fn \<Rightarrow>
            (case cs of
               [paramList, returnTypeNode, body] \<Rightarrow>
                 (case validate (ctx\<lparr>parentType := ty, fnMeta := Some fn, loopsInFunction := 0\<rparr>) body
                         (defn.returnType fn \<noteq> ''void'') st of
                    Inl e \<Rightarrow> Inl e
                  | Inr (body', st1) \<Rightarrow>
                      if node.runType body' \<noteq> defn.returnType fn \<and> \<not> alwaysEscapes body' then
                        Inl (CompileError ''Implicit Return Type Mismatch''
                          [(''node'', PNode (Node ty tok m rt ae dv [paramList, returnTypeNode, body']))])
                      else Inr (Node ty tok m rt ae dv [paramList, returnTypeNode, body'], st1))
             | _ \<Rightarrow> Inl (TypeError ''node.meta.body is undefined''))
        | _ \<Rightarrow> Inl (TypeError ''node.meta.body is undefined''))

     else if ty = FN_PTR then
       (if defaultTableLength ctx \<noteq> 1 then
          Inl (CompileError ''No Table Defined For Function Pointer''
            [(''node'', PNode (Node ty tok m rt ae dv cs))])
        else Inr (Node ty tok m rt ae dv cs, st))

     else if ty = I32_LITERAL then
       (case validateI32Literal ctx tok m rt ae dv cs of
          Inl e \<Rightarrow> Inl e
        | Inr node' \<Rightarrow> Inr (node', st))

     else if ty = I64_LITERAL then
       (case validateI64Literal ctx tok m rt ae dv cs of
          Inl e \<Rightarrow> Inl e
        | Inr node' \<Rightarrow> Inr (node', st))

     else if ty = IF then
       (case cs of
          condition # body # others \<Rightarrow>
            (case validate (ctx\<lparr>parentType := ty\<rparr>) condition True st of
               Inl e \<Rightarrow> Inl e
             | Inr (condition', st1) \<Rightarrow>
                 (case badCondition condition' (Node ty tok m rt ae dv (condition' # body # others)) of
                    Some e \<Rightarrow> Inl e
                  | None \<Rightarrow>
                      (case validate (ctx\<lparr>parentType := ty\<rparr>) body False st1 of
                         Inl e \<Rightarrow> Inl e
                       | Inr (body', st2) \<Rightarrow>
                           Inr (Node ty tok m rt ae dv (condition' # body' # others), st2))))
        | _ \<Rightarrow> Inl (TypeError ''child is undefined''))

     else if ty = LOOP then
       (case cs of
          [body] \<Rightarrow>
            (case validate (ctx\<lparr>parentType := ty, loopsInFunction := Suc (loopsInFunction ctx)\<rparr>)
                    body False
                    (st\<lparr>loops := \<lparr>yieldPoints = [], returnPoints = []\<rparr> # loops st\<rparr>) of
               Inl e \<Rightarrow> Inl e
             | Inr (body', st1) \<Rightarrow>
                 (case loops st1 of
                    [] \<Rightarrow> Inl (TypeError ''node.meta is undefined'')
                  | points # outer \<Rightarrow>
                      (case finishLoop tok rt ae dv body' points of
                         Inl e \<Rightarrow> Inl e
                       | Inr node' \<Rightarrow> Inr (node', st1\<lparr>loops := outer\<rparr>))))
        | _ \<Rightarrow> Inl (TypeError ''child is undefined''))

     else if ty = MEMORY_ACCESS then
       (case metaReturnType m of
          Inl e \<Rightarrow> Inl e
        | Inr rt' \<Rightarrow>
            (case cs of
               Node aty atok am art aae adv (address # rest) # others \<Rightarrow>
                 (case validate (ctx\<lparr>parentType := aty\<rparr>) address True st of
                    Inl e \<Rightarrow> Inl e
                  | Inr (address', st1) \<Rightarrow>
                      if alwaysEscapes address' then
                        Inl (unreachableCode address'
                               (Node ty tok m rt ae dv
                                  (Node aty atok am art aae adv (address' # rest) # others)))
                      else if node.runType address' \<noteq> ''i32'' then
                        Inl (CompileError ''32-bit Address Required'' [(''node'', PNode address')])
                      else
                        (case rest of
                           [] \<Rightarrow>
                             Inr (Node ty tok m rt' ae dv
                                    (Node aty atok am art aae adv [address'] # others), st1)
                         | offsetProvided # rest' \<Rightarrow>
                             (case validate (ctx\<lparr>parentType := aty\<rparr>) offsetProvided True st1 of
                                Inl e \<Rightarrow> Inl e
                              | Inr (offsetProvided', st2) \<Rightarrow>
                                  Inr (Node ty tok m rt' ae dv
                                         (Node aty atok am art aae adv
                                            (address' # offsetProvided' # rest') # others), st2))))
             | _ \<Rightarrow> Inl (TypeError ''child is undefined'')))

     else if ty = NEG \<or> ty = SUFFIX_OP then
       (case cs of
          child # others \<Rightarrow>
            (case validate (ctx\<lparr>parentType := ty\<rparr>) child True st of
               Inl e \<Rightarrow> Inl e
             | Inr (child', st1) \<Rightarrow>
                 Inr (Node ty tok m (node.runType child') ae dv (child' # others), st1))
        | _ \<Rightarrow> Inl (TypeError ''child is undefined''))

     else if ty = OR then
       (case cs of
          [left, right] \<Rightarrow>
            (case validate (ctx\<lparr>parentType := ty\<rparr>) left True st of
               Inl e \<Rightarrow> Inl e
             | Inr (left', st1) \<Rightarrow>
                 if alwaysEscapes left'
                 then Inl (unreachableCode left' (Node ty tok m rt ae dv [left', right]))
                 else
                   (case validate (ctx\<lparr>parentType := ty\<rparr>) right True st1 of
                      Inl e \<Rightarrow> Inl e
                    | Inr (right', st2) \<Rightarrow> finishOr ctx tok m rt ae dv left' right' st2))
        | _ \<Rightarrow> Inl (TypeError ''child is undefined''))

     else if ty = PAGES_ALLOCATED then
       Inr (Node ty tok m ''i32'' ae dv cs, st)

     else if ty = PTR then
       (if defaultMemoryLength ctx \<noteq> 1 then
          Inl (CompileError ''No Memory Defined For Pointer''
            [(''node'', PNode (Node ty tok m rt ae dv cs))])
        else Inr (Node ty tok m rt ae dv cs, st))

     else if ty = RETURN then
       (case cs of
          [child] \<Rightarrow>
            (case validate (ctx\<lparr>parentType := ty\<rparr>) child True st of
               Inl e \<Rightarrow> Inl e
             | Inr (child', st1) \<Rightarrow>
                 if alwaysEscapes child'
                 then Inl (unreachableCode child' (Node ty tok m rt ae dv [child']))
                 else finishReturn ctx tok m rt ae dv [child'] (node.runType child') st1)
        | _ \<Rightarrow> finishReturn ctx tok m rt ae dv cs rt st)

     else if ty = VARIABLE then
       (case metaRunType m of
          Inl e \<Rightarrow> Inl e
        | Inr rt' \<Rightarrow> Inr (Node ty tok m rt' ae dv cs, st))

     else if ty \<in> set [DEFAULT_MEMORY, DEFAULT_TABLE, EXPORT, IMPORT, INIT_EXPR, ROOT] then
       Inl (NotModelled ''a case of the top level of a module'')

     else Inr (Node ty tok m rt ae dv cs, st))"

| "validateStatements ctx [] valueRequired st = Inr ([], st)"
| "validateStatements ctx [lastChild] valueRequired st =
     (case validate ctx lastChild valueRequired st of
        Inl e \<Rightarrow> Inl e
      | Inr (lastChild', st1) \<Rightarrow>
          Inr ([if \<not> valueRequired \<and> node.runType lastChild' \<noteq> ''void''
                then setDropValue lastChild' else lastChild'], st1))"
| "validateStatements ctx (child # next # rest) valueRequired st =
     (case validate ctx child False st of
        Inl e \<Rightarrow> Inl e
      | Inr (child', st1) \<Rightarrow>
          if alwaysEscapes child' then
            Inl (CompileError ''Unreachable Code''
              [(''child'', PNode child'), (''unreachable'', PNode next)])
          else
            (case validateStatements ctx (next # rest) valueRequired st1 of
               Inl e \<Rightarrow> Inl e
             | Inr (rest', st2) \<Rightarrow>
                 Inr ((if node.runType child' \<noteq> ''void'' then setDropValue child' else child')
                        # rest', st2)))"

| "validateArguments ctx callNode validated [] types st = Inr (validated, st)"
| "validateArguments ctx callNode validated (arg # args) types st =
     (case validate ctx arg True st of
        Inl e \<Rightarrow> Inl e
      | Inr (arg', st1) \<Rightarrow>
          if alwaysEscapes arg' then
            Inl (unreachableCode arg' (callNode (validated @ arg' # args)))
          else if [node.runType arg'] \<noteq> take 1 types then
            Inl (CompileError ''Function Signature Mismatch''
              [(''node'', PNode (callNode (validated @ arg' # args))), (''arg'', PNode arg'),
               (''expectedType'', PType (case types of [] \<Rightarrow> ''undefined'' | t # ts \<Rightarrow> t))])
          else validateArguments ctx callNode (validated @ [arg']) args (drop 1 types) st1)"
  by pat_completeness auto
termination
  by (relation "measure (\<lambda>x. case x of
        Inl (ctx, n, vr, st) \<Rightarrow> size n
      | Inr (Inl (ctx, ns, vr, st)) \<Rightarrow> size_list size ns
      | Inr (Inr (ctx, cn, vs, args, ts, st)) \<Rightarrow> size_list size args)") auto

declare validate.simps(1) [simp del]

section \<open>Byte code container (compiler/byteCode.js)\<close>

text \<open>
  A part of the container holds one byte, found in the code table under a string
  descriptor (\<open>undefined\<close> when the table has no such entry), or a list of bytes, or the
  bytes of a float, which the model does not compute. Of the annotations of a part the
  field name and the path are kept, the displayed value is not.
\<close>

datatype content =
    ByteCode "nat option"
  | ByteList "int list"
  | FloatBytes nat jsnumber

datatype part = Part (content: content) (field: string) (partPath: string)

record ByteCodeContainer =
  path :: string
  parts :: "part list"
  totalSize :: nat

definition byte :: "string \<Rightarrow> string \<Rightarrow> ByteCodeContainer \<Rightarrow> ByteCodeContainer" where
  "byte code fld c =
     c\<lparr>parts := parts c @ [Part (ByteCode (codeTable code)) fld (path c @ ''|'' @ fld)],
       totalSize := totalSize c + 1\<rparr>"

definition bytes :: "int list \<Rightarrow> string \<Rightarrow> ByteCodeContainer \<Rightarrow> ByteCodeContainer" where
  "bytes bs fld c =
     c\<lparr>parts := parts c @ [Part (ByteList bs) fld (path c @ ''|'' @ fld)],
       totalSize := totalSize c + length bs\<rparr>"

definition floatBytes :: "nat \<Rightarrow> jsnumber \<Rightarrow> string \<Rightarrow> ByteCodeContainer \<Rightarrow> ByteCodeContainer" where
  \<comment> \<open>\<open>bytes(f32(value), ...)\<close> and \<open>bytes(f64(value), ...)\<close>: 4 or 8 bytes\<close>
  "floatBytes width v fld c =
     c\<lparr>parts := parts c @ [Part (FloatBytes width v) fld (path c @ ''|'' @ fld)],
       totalSize := totalSize c + width div 8\<rparr>"

definition op :: "string \<Rightarrow> ByteCodeContainer \<Rightarrow> ByteCodeContainer" where
  "op code c = byte code ''op'' c"

definition varuint :: "int \<Rightarrow> string \<Rightarrow> ByteCodeContainer \<Rightarrow> error + ByteCodeContainer" where
  \<comment> \<open>with the default bound of 32 bits, which every call in the compiler uses\<close>
  "varuint theValue fld c =
     (if theValue < 0 \<or> theValue > 2 ^ 32 - 1
      then Inl (CompileError ''Integer Out of Range in Code Generation'' [])
      else Inr (bytes (uLEB theValue []) fld c))"

definition varuintNumber ::
  "jsnumber \<Rightarrow> string \<Rightarrow> ByteCodeContainer \<Rightarrow> error + ByteCodeContainer" where
  \<comment> \<open>\<open>varuint\<close> on the value of a literal: \<open>NaN\<close> is no integer\<close>
  "varuintNumber v fld c =
     (case v of
        IntNum n \<Rightarrow> varuint n fld c
      | NaN \<Rightarrow> Inl (CompileError ''Integer Out of Range in Code Generation'' [])
      | FloatNum t \<Rightarrow> Inl (NotModelled ''varuint of a float''))"

definition literal ::
  "runType \<Rightarrow> jsnumber \<Rightarrow> string \<Rightarrow> ByteCodeContainer \<Rightarrow> error + ByteCodeContainer" where
  "literal rt v fld c =
     (if rt = ''i32'' \<or> rt = ''i64'' then
        (case v of
           IntNum n \<Rightarrow> Inr (bytes (LEB n []) fld c)
         | NaN \<Rightarrow> Inr (bytes (LEB 0 []) fld c)
         | FloatNum t \<Rightarrow> Inl (NotModelled ''LEB of a float''))
      else if rt = ''f32'' then Inr (floatBytes 32 v fld c)
      else if rt = ''f64'' then Inr (floatBytes 64 v fld c)
      else Inr c)"

definition getVariable :: "nat \<Rightarrow> bool \<Rightarrow> ByteCodeContainer \<Rightarrow> error + ByteCodeContainer" where
  "getVariable idx global c =
     (if global then varuint (int idx) ''global_index'' (op ''get_global'' c)
      else varuint (int idx) ''local_index'' (op ''get_local'' c))"

definition setVariable ::
  "nat \<Rightarrow> bool \<Rightarrow> bool \<Rightarrow> ByteCodeContainer \<Rightarrow> error + ByteCodeContainer" where
  "setVariable idx global tee c =
     (if global then
        (if tee then
           (case varuint (int idx) ''global_index'' (op ''set_global'' c) of
              Inl e \<Rightarrow> Inl e
            | Inr c1 \<Rightarrow> varuint (int idx) ''global_index'' (op ''get_global'' c1))
         else varuint (int idx) ''global_index'' (op ''set_global'' c))
      else if tee then varuint (int idx) ''local_index'' (op ''tee_local'' c)
      else varuint (int idx) ''local_index'' (op ''set_local'' c))"

section \<open>Code generation for function bodies (compiler/functionCodeGen.js)\<close>

text \<open>
  The alignment of a memory access: the loop
  \<open>for (var alignment = Math.log2(storageSize); offset % (2**alignment) !== 0; alignment--);\<close>.
  \<open>Math.log2\<close> is modelled on the powers of two, where it is exact; the storage sizes
  are 1, 2, 4 and 8.
\<close>

fun log2 :: "nat \<Rightarrow> nat option" where
  "log2 n =
     (if n = 0 then None
      else if n = 1 then Some 0
      else if odd n then None
      else map_option Suc (log2 (n div 2)))"

declare log2.simps [simp del]

function alignmentLoop :: "nat \<Rightarrow> nat \<Rightarrow> nat" where
  "alignmentLoop alignment offset =
     (if offset mod 2 ^ alignment \<noteq> 0 then alignmentLoop (alignment - 1) offset else alignment)"
  by pat_completeness auto
termination
proof (relation "measure (\<lambda>(alignment, offset). alignment)", goal_cases)
  case 1
  show ?case by simp
next
  case (2 alignment offset)
  then have "alignment \<noteq> 0" by (cases alignment) auto
  then show ?case by simp
qed

declare alignmentLoop.simps [simp del]

definition calculateAlignment :: "nat \<Rightarrow> jsnumber \<Rightarrow> error + nat" where
  "calculateAlignment theSize offset =
     (case (log2 theSize, offset) of
        (Some a, IntNum n) \<Rightarrow>
          if 0 \<le> n then Inr (alignmentLoop a (nat n))
          else Inl (NotModelled ''a negative offset'')
      | _ \<Rightarrow> Inl (NotModelled ''alignment of a size that is no power of two, or of no integer''))"

text \<open>
  What \<open>generate\<close> reads around a node: the type of its parent and, for the loops that
  enclose it, innermost first, the depth that the \<open>LOOP\<close> case has stored in the
  \<open>meta\<close> of the loop.
\<close>

record gctx =
  gparentType :: ASType
  loopDepths :: "int list"

text \<open>The parts of the metadata that the cases read.\<close>

definition metaDefinition :: "meta \<Rightarrow> error + defn" where
  \<comment> \<open>the definition that a reference or an anonymous variable stands for\<close>
  "metaDefinition m =
     (case m of
        DefinitionMeta d \<Rightarrow> Inr d
      | TempVariableMeta d \<Rightarrow> Inr d
      | NullMeta \<Rightarrow> Inl (TypeError ''meta is null'')
      | _ \<Rightarrow> Inl (NotModelled ''a field of a meta object that is undefined''))"

definition metaValue :: "meta \<Rightarrow> error + jsnumber" where
  "metaValue m =
     (case m of
        LiteralMeta v rt \<Rightarrow> Inr v
      | NullMeta \<Rightarrow> Inl (TypeError ''meta is null'')
      | _ \<Rightarrow> Inl (NotModelled ''a field of a meta object that is undefined''))"

definition offsetOf :: "node list \<Rightarrow> error + jsnumber" where
  \<comment> \<open>\<open>offsetProvided === undefined ? 0 : offsetProvided.meta.value\<close>\<close>
  "offsetOf rest = (case rest of [] \<Rightarrow> Inr (IntNum 0) | offsetProvided # others \<Rightarrow> metaValue (meta offsetProvided))"

definition then_do ::
  "error + ByteCodeContainer \<Rightarrow> (ByteCodeContainer \<Rightarrow> error + ByteCodeContainer)
     \<Rightarrow> error + ByteCodeContainer" where
  \<comment> \<open>one more call of a chain \<open>bytecode.a(...).b(...)\<close>\<close>
  "then_do r f = (case r of Inl e \<Rightarrow> Inl e | Inr c \<Rightarrow> f c)"

definition emitCondition :: "runType \<Rightarrow> ByteCodeContainer \<Rightarrow> error + ByteCodeContainer" where
  \<comment> \<open>the implicit cast of the condition of an \<open>if\<close> that is no \<open>i32\<close>\<close>
  "emitCondition conditionType c =
     (if conditionType \<noteq> ''i32'' then
        then_do (literal conditionType (IntNum 0) ''value'' (op (conditionType @ ''.const'') c))
          (\<lambda>c1. Inr (op (conditionType @ ''.ne'') c1))
      else Inr c)"

definition accessParameters :: "defn \<Rightarrow> node list \<Rightarrow> error + jsnumber \<times> nat" where
  \<comment> \<open>the offset and the alignment of an access; \<open>rest\<close> holds the offset, if one is given\<close>
  "accessParameters d rest =
     (case offsetOf rest of
        Inl e \<Rightarrow> Inl e
      | Inr offset \<Rightarrow>
          (case calculateAlignment (storageSize d) offset of
             Inl e \<Rightarrow> Inl e
           | Inr alignment \<Rightarrow> Inr (offset, alignment)))"

definition emitMemoryLoad ::
  "defn \<Rightarrow> jsnumber \<Rightarrow> nat \<Rightarrow> ByteCodeContainer \<Rightarrow> error + ByteCodeContainer" where
  \<comment> \<open>the \<open>MEMORY_ACCESS\<close> case after the address\<close>
  "emitMemoryLoad d offset alignment c =
     then_do (then_do (then_do (getVariable (index d) (isGlobal d) c)
       (\<lambda>c1. varuint (int (storageSize d)) ''value'' (op ''i32.const'' (op ''i32.add'' c1))))
       (\<lambda>c2. varuint (int alignment) ''flags''
          (op (defn.runType d @ ''.load''
               @ (if extendedType d then storageBits d @ ''_'' @ storageSigned d else []))
             (op ''i32.mul'' c2))))
       (\<lambda>c3. varuintNumber offset ''offset'' c3)"

definition emitAddressing :: "defn \<Rightarrow> ByteCodeContainer \<Rightarrow> error + ByteCodeContainer" where
  \<comment> \<open>the \<open>ASSIGN\<close> case to memory, between the address and the right-hand side\<close>
  "emitAddressing d c =
     then_do (getVariable (index d) (isGlobal d) c)
       (\<lambda>c1. then_do (varuint (int (storageSize d)) ''value'' (op ''i32.const'' (op ''i32.add'' c1)))
          (\<lambda>c2. Inr (op ''i32.mul'' c2)))"

definition emitMemoryStore ::
  "defn \<Rightarrow> jsnumber \<Rightarrow> nat \<Rightarrow> bool \<Rightarrow> meta \<Rightarrow> ByteCodeContainer
     \<Rightarrow> error + ByteCodeContainer" where
  \<comment> \<open>the \<open>ASSIGN\<close> case to memory after the right-hand side\<close>
  "emitMemoryStore d offset alignment dv m c =
     (let storageOp = defn.returnType d @ ''.store''
            @ (if extendedType d then storageBits d else [])
      in if dv then
           then_do (varuint (int alignment) ''flags'' (op storageOp c))
             (\<lambda>c1. varuintNumber offset ''offset'' c1)
         else
           (case m of
              TempVariableMeta tempVariable \<Rightarrow>
                then_do (then_do (then_do
                  (varuint (int (index tempVariable)) ''local_index'' (op ''tee_local'' c))
                  (\<lambda>c1. varuint (int alignment) ''flags'' (op storageOp c1)))
                  (\<lambda>c2. varuintNumber offset ''offset'' c2))
                  (\<lambda>c3. varuint (int (index tempVariable)) ''local_index''
                           (op ''get_local'' c3))
            | NullMeta \<Rightarrow> Inl (TypeError ''meta is null'')
            | _ \<Rightarrow> Inl (TypeError ''node.meta.tempVariable is undefined'')))"

definition finishNode :: "bool \<Rightarrow> ByteCodeContainer \<Rightarrow> error + ByteCodeContainer" where
  \<comment> \<open>the end of \<open>generate\<close>: \<open>if (dropValue) bytecode.op(drop)\<close>\<close>
  "finishNode dv c = Inr (if dv then op ''drop'' c else c)"

text \<open>
  \<open>generate ctx node depth c\<close> is the container after the call. The tree is read as the
  validator and the ordering of the index spaces have left it: a \<open>meta\<close> that refers to
  a definition holds the definition with its final index. \<open>generateEach\<close> is the loop
  over a list of nodes.
\<close>

function (sequential) generate ::
    "gctx \<Rightarrow> node \<Rightarrow> int \<Rightarrow> ByteCodeContainer \<Rightarrow> error + ByteCodeContainer"
  and generateEach ::
    "gctx \<Rightarrow> node list \<Rightarrow> int \<Rightarrow> ByteCodeContainer \<Rightarrow> error + ByteCodeContainer"
where
  "generate ctx (Node ty tok m rt ae dv cs) depth c =
    (if ty \<in> set binaryOperatorTypes \<or> ty = UNARY_MATH_OP then
       (case generateEach (ctx\<lparr>gparentType := ty\<rparr>) cs depth c of
          Inl e \<Rightarrow> Inl e
        | Inr c1 \<Rightarrow>
            (case m of
               OpInfoMeta opInfo \<Rightarrow> finishNode dv (op (operator opInfo) c1)
             | NullMeta \<Rightarrow> Inl (TypeError ''meta is null'')
             | _ \<Rightarrow> finishNode dv (op ''undefined'' c1)))

     else if ty = ALLOCATE_PAGES then
       (case cs of
          child # others \<Rightarrow>
            then_do (then_do (generate (ctx\<lparr>gparentType := ty\<rparr>) child depth c)
              (\<lambda>c1. varuint 0 ''reserved'' (op ''grow_memory'' c1)))
              (finishNode dv)
        | _ \<Rightarrow> Inl (TypeError ''child is undefined''))

     else if ty = AND then
       (case cs of
          [left, right] \<Rightarrow>
            (case generate (ctx\<lparr>gparentType := ty\<rparr>) left depth c of
               Inl e \<Rightarrow> Inl e
             | Inr c1 \<Rightarrow>
                 (case (if rt = ''i32'' \<or> rt = ''i64'' then Inr (op (rt @ ''.eqz'') c1)
                        else then_do (literal rt (IntNum 0) ''value'' (op (rt @ ''.const'') c1))
                               (\<lambda>c2. Inr (op (rt @ ''.eq'') c2))) of
                    Inl e \<Rightarrow> Inl e
                  | Inr c3 \<Rightarrow>
                      (case literal rt (IntNum 0) ''value''
                              (op (rt @ ''.const'') (byte rt ''block_type'' (op ''if'' c3))) of
                         Inl e \<Rightarrow> Inl e
                       | Inr c4 \<Rightarrow>
                           (case generate (ctx\<lparr>gparentType := ty\<rparr>) right (depth + 1)
                                   (op ''else'' c4) of
                              Inl e \<Rightarrow> Inl e
                            | Inr c5 \<Rightarrow> finishNode dv (op ''end'' c5)))))
        | _ \<Rightarrow> Inl (TypeError ''child is undefined''))

     else if ty = ASSIGN then
       (case cs of
          [Node lty ltok lm lrt lae ldv lcs, right] \<Rightarrow>
            if lty \<noteq> MEMORY_ACCESS then
              (case generate (ctx\<lparr>gparentType := ty\<rparr>) right depth c of
                 Inl e \<Rightarrow> Inl e
               | Inr c1 \<Rightarrow>
                   (case metaDefinition lm of
                      Inl e \<Rightarrow> Inl e
                    | Inr d \<Rightarrow> setVariable (index d) (isGlobal d) (\<not> dv) c1))
            else
              (case metaDefinition lm of
                 Inl e \<Rightarrow> Inl e
               | Inr d \<Rightarrow>
                   (case lcs of
                      Node aty atok am art aae adv (address # rest) # others \<Rightarrow>
                        (case accessParameters d rest of
                           Inl e \<Rightarrow> Inl e
                         | Inr (offset, alignment) \<Rightarrow>
                             (case generate (ctx\<lparr>gparentType := aty\<rparr>) address depth c of
                                Inl e \<Rightarrow> Inl e
                              | Inr c1 \<Rightarrow>
                                  (case emitAddressing d c1 of
                                     Inl e \<Rightarrow> Inl e
                                   | Inr c2 \<Rightarrow>
                                       (case generate (ctx\<lparr>gparentType := ty\<rparr>) right depth c2 of
                                          Inl e \<Rightarrow> Inl e
                                        | Inr c3 \<Rightarrow>
                                            emitMemoryStore d offset alignment dv m c3))))
                    | _ \<Rightarrow> Inl (TypeError ''child is undefined'')))
        | _ \<Rightarrow> Inl (TypeError ''child is undefined''))

     else if ty = BLOCK \<or> ty = PAREN then
       (case cs of
          [child] \<Rightarrow>
            then_do (generate (ctx\<lparr>gparentType := ty\<rparr>) child depth c) (finishNode dv)
        | _ \<Rightarrow>
            if gparentType ctx \<in> set [ELSE, IF, FN, LOOP] then
              then_do (generateEach (ctx\<lparr>gparentType := ty\<rparr>) cs depth c) (finishNode dv)
            else
              (case generateEach (ctx\<lparr>gparentType := ty\<rparr>) cs (depth + 1)
                      (byte rt ''block_type'' (op ''block'' c)) of
                 Inl e \<Rightarrow> Inl e
               | Inr c1 \<Rightarrow> finishNode dv (op ''end'' c1)))

     else if ty = BREAK \<or> ty = YIELD then
       (case generateEach (ctx\<lparr>gparentType := ty\<rparr>) cs depth c of
          Inl e \<Rightarrow> Inl e
        | Inr c1 \<Rightarrow>
            (case loopDepths ctx of
               [] \<Rightarrow> Inl (TypeError ''node.meta.jumpTarget is undefined'')
             | target # outer \<Rightarrow> varuint (depth - target) ''relative_depth'' (op ''br'' c1)))

     else if ty = CALL then
       (case cs of
          Node aty atok am art aae adv args # others \<Rightarrow>
            (case generateEach (ctx\<lparr>gparentType := aty\<rparr>) args depth c of
               Inl e \<Rightarrow> Inl e
             | Inr c1 \<Rightarrow>
                 (case metaDefinition m of
                    Inl e \<Rightarrow> Inl e
                  | Inr d \<Rightarrow>
                      if defASType d = FN_PTR then
                        then_do (then_do (then_do (getVariable (index d) (isGlobal d) c1)
                          (\<lambda>c2. varuint (int (signatureIndex d)) ''type_index''
                                   (op ''call_indirect'' c2)))
                          (\<lambda>c3. varuint 0 ''reserved'' c3))
                          (finishNode dv)
                      else
                        then_do (varuint (int (index d)) ''function_index'' (op ''call'' c1))
                          (finishNode dv)))
        | _ \<Rightarrow> Inl (TypeError ''child is undefined''))

     else if ty = CONTINUE then
       (case loopDepths ctx of
          [] \<Rightarrow> Inl (TypeError ''node.meta.jumpTarget is undefined'')
        | target # outer \<Rightarrow>
            then_do (varuint (depth - target - 1) ''relative_depth'' (op ''br'' c))
              (finishNode dv))

     else if ty = DEFINITION \<or> ty = VARIABLE then
       (if dv then Inr c
        else
          (case metaDefinition m of
             Inl e \<Rightarrow> Inl e
           | Inr d \<Rightarrow> getVariable (index d) (isGlobal d) c))

     else if ty = ELSE then
       (case cs of
          [Node ity itok im irt iae idv (condition # passBody # iothers), failBody] \<Rightarrow>
            (case generate (ctx\<lparr>gparentType := ity\<rparr>) condition depth c of
               Inl e \<Rightarrow> Inl e
             | Inr c1 \<Rightarrow>
                 (case emitCondition (node.runType condition) c1 of
                    Inl e \<Rightarrow> Inl e
                  | Inr c2 \<Rightarrow>
                      (case generate (ctx\<lparr>gparentType := ity\<rparr>) passBody (depth + 1)
                              (byte rt ''block_type'' (op ''if'' c2)) of
                         Inl e \<Rightarrow> Inl e
                       | Inr c3 \<Rightarrow>
                           (case generate (ctx\<lparr>gparentType := ty\<rparr>) failBody (depth + 1)
                                   (op ''else'' c3) of
                              Inl e \<Rightarrow> Inl e
                            | Inr c4 \<Rightarrow> finishNode dv (op ''end'' c4)))))
        | _ \<Rightarrow> Inl (TypeError ''child is undefined''))

     else if ty \<in> set [F32_LITERAL, F64_LITERAL, I32_LITERAL, I64_LITERAL] then
       (case m of
          LiteralMeta theValue theRunType \<Rightarrow>
            then_do (literal theRunType theValue ''value'' (op (theRunType @ ''.const'') c))
              (finishNode dv)
        | NullMeta \<Rightarrow> Inl (TypeError ''meta is null'')
        | _ \<Rightarrow> Inl (NotModelled ''a field of a meta object that is undefined''))

     else if ty = IF then
       (case cs of
          condition # body # others \<Rightarrow>
            (case generate (ctx\<lparr>gparentType := ty\<rparr>) condition depth c of
               Inl e \<Rightarrow> Inl e
             | Inr c1 \<Rightarrow>
                 (case emitCondition (node.runType condition) c1 of
                    Inl e \<Rightarrow> Inl e
                  | Inr c2 \<Rightarrow>
                      (case generate (ctx\<lparr>gparentType := ty\<rparr>) body (depth + 1)
                              (byte ''void'' ''block_type'' (op ''if'' c2)) of
                         Inl e \<Rightarrow> Inl e
                       | Inr c3 \<Rightarrow> finishNode dv (op ''end'' c3))))
        | _ \<Rightarrow> Inl (TypeError ''child is undefined''))

     else if ty = LOOP then
       (case cs of
          body # others \<Rightarrow>
            (case generate (ctx\<lparr>gparentType := ty, loopDepths := (depth + 1) # loopDepths ctx\<rparr>)
                    body (depth + 2)
                    (byte rt ''block_type'' (op ''loop'' (byte rt ''block_type'' (op ''block'' c)))) of
               Inl e \<Rightarrow> Inl e
             | Inr c1 \<Rightarrow>
                 (case varuint 0 ''relative_depth'' (op ''br'' c1) of
                    Inl e \<Rightarrow> Inl e
                  | Inr c2 \<Rightarrow> finishNode dv (op ''end'' (op ''end'' c2))))
        | _ \<Rightarrow> Inl (TypeError ''child is undefined''))

     else if ty = MEMORY_ACCESS then
       (case metaDefinition m of
          Inl e \<Rightarrow> Inl e
        | Inr d \<Rightarrow>
            (case cs of
               Node aty atok am art aae adv (address # rest) # others \<Rightarrow>
                 (case accessParameters d rest of
                    Inl e \<Rightarrow> Inl e
                  | Inr (offset, alignment) \<Rightarrow>
                      (case generate (ctx\<lparr>gparentType := aty\<rparr>) address depth c of
                         Inl e \<Rightarrow> Inl e
                       | Inr c1 \<Rightarrow>
                           then_do (emitMemoryLoad d offset alignment c1) (finishNode dv)))
             | _ \<Rightarrow> Inl (TypeError ''child is undefined'')))

     else if ty = NEG then
       (case cs of
          child # others \<Rightarrow>
            (case metaValue (meta child) of
               Inl e \<Rightarrow> Inl e
             | Inr theValue \<Rightarrow>
                 then_do (literal rt (negate theValue) ''value'' (op (rt @ ''.const'') c))
                   (finishNode dv))
        | _ \<Rightarrow> Inl (TypeError ''child is undefined''))

     else if ty = OR then
       (case cs of
          [left, right] \<Rightarrow>
            (case generate (ctx\<lparr>gparentType := ty\<rparr>) left depth c of
               Inl e \<Rightarrow> Inl e
             | Inr c1 \<Rightarrow>
                 (case m of
                    TempVariableMeta tempVariable \<Rightarrow>
                      (case varuint (int (index tempVariable)) ''local_index'' (op ''tee_local'' c1) of
                         Inl e \<Rightarrow> Inl e
                       | Inr c2 \<Rightarrow>
                           (case varuint (int (index tempVariable)) ''local_index''
                                   (op ''get_local'' (byte rt ''block_type'' (op ''if'' c2))) of
                              Inl e \<Rightarrow> Inl e
                            | Inr c3 \<Rightarrow>
                                (case generate (ctx\<lparr>gparentType := ty\<rparr>) right (depth + 1)
                                        (op ''else'' c3) of
                                   Inl e \<Rightarrow> Inl e
                                 | Inr c4 \<Rightarrow> finishNode dv (op ''end'' c4))))
                  | NullMeta \<Rightarrow> Inl (TypeError ''meta is null'')
                  | _ \<Rightarrow> Inl (TypeError ''node.meta.tempVariable is undefined'')))
        | _ \<Rightarrow> Inl (TypeError ''child is undefined''))

     else if ty = PAGES_ALLOCATED then
       then_do (varuint 0 ''reserved'' (op ''current_memory'' c)) (finishNode dv)

     else if ty = PASS then
       finishNode dv (op ''nop'' c)

     else if ty = RETURN then
       (case cs of
          [child] \<Rightarrow>
            (case generate (ctx\<lparr>gparentType := ty\<rparr>) child depth c of
               Inl e \<Rightarrow> Inl e
             | Inr c1 \<Rightarrow> Inr (op ''return'' c1))
        | _ \<Rightarrow> Inr (op ''return'' c))

     else if ty = SUFFIX_OP then
       (case cs of
          child # others \<Rightarrow>
            (case metaDefinition (meta child) of
               Inl e \<Rightarrow> Inl e
             | Inr d \<Rightarrow>
                 (case (if \<not> dv then getVariable (index d) (isGlobal d) c else Inr c) of
                    Inl e \<Rightarrow> Inl e
                  | Inr c1 \<Rightarrow>
                      then_do (then_do (getVariable (index d) (isGlobal d) c1)
                        (\<lambda>c2. literal (node.runType child) (IntNum 1) ''value''
                                 (op (node.runType child @ ''.const'') c2)))
                        (\<lambda>c3. setVariable (index d) (isGlobal d) False
                                 (op (node.runType child @ ''.''
                                      @ (if tok = ''++'' then ''add'' else ''sub'')) c3))))
        | _ \<Rightarrow> Inl (TypeError ''child is undefined''))

     else finishNode dv c)"

| "generateEach ctx [] depth c = Inr c"
| "generateEach ctx (n # ns) depth c =
     (case generate ctx n depth c of
        Inl e \<Rightarrow> Inl e
      | Inr c1 \<Rightarrow> generateEach ctx ns depth c1)"
  by pat_completeness auto
termination
  by (relation "measure (\<lambda>x. case x of
        Inl (ctx, n, depth, c) \<Rightarrow> size n
      | Inr (ctx, ns, depth, c) \<Rightarrow> size_list size ns)") auto

declare generate.simps(1) [simp del]

text \<open>
  The contents of the parts with a given field name that were appended to a container
  \<open>c\<close> to make \<open>c'\<close>; it is used to state what a sequence of calls emits.
\<close>

definition emittedField :: "string \<Rightarrow> ByteCodeContainer \<Rightarrow> ByteCodeContainer \<Rightarrow> content list" where
  "emittedField fld c c' =
     map content (filter (\<lambda>p. field p = fld) (drop (length (parts c)) (parts c')))"

section \<open>Properties of the operator table and of the opcode table\<close>

lemma operatorTable_to_i64_i32:
  "map_option operator (operatorInfo ''to_i64'' ''i32'') = Some ''i64.extend_s/i64''"
  "map_option opInfo.returnType (operatorInfo ''to_i64'' ''i32'') = Some ''i64''"
  by code_simp+

lemma codeTable_extend_s_i64: "codeTable ''i64.extend_s/i64'' = None"
  by code_simp

lemma codeTable_extend_s_i32: "codeTable ''i64.extend_s/i32'' = Some 0xac"
  by code_simp

text \<open>
  C8. The entry of the operator table for \<open>to_i64\<close> on an \<open>i32\<close> operand names the
  mnemonic \<open>i64.extend_s/i64\<close>. The opcode table of the byte encoder has no entry under
  that mnemonic; the sign extension of the target format is listed there as
  \<open>i64.extend_s/i32\<close>, opcode \<open>0xac\<close>.
\<close>

theorem to_i64_on_i32_has_no_opcode:
  "map_option operator (operatorInfo ''to_i64'' ''i32'') = Some ''i64.extend_s/i64''
   \<and> map_option opInfo.returnType (operatorInfo ''to_i64'' ''i32'') = Some ''i64''
   \<and> codeTable ''i64.extend_s/i64'' = None
   \<and> codeTable ''i64.extend_s/i32'' = Some 0xac"
  using operatorTable_to_i64_i32 codeTable_extend_s_i64 codeTable_extend_s_i32 by simp

section \<open>Properties of the variable-length integers\<close>

lemma LEB_two_to_32: "LEB 4294967296 [] = [0]"
  by (simp add: LEB.simps ToInt32_def)

lemma generate_literal:
  "generate ctx (Node I64_LITERAL tok (LiteralMeta v rt') rt ae dv cs) depth c
     = then_do (literal rt' v ''value'' (op (rt' @ ''.const'') c)) (finishNode dv)"
  by (simp add: generate.simps(1) binaryOperatorTypes_def)

text \<open>
  C1 fails on the code for the signed encoding of an \<open>i64\<close> literal beyond 32 bits. The
  literal \<open>4294967296x64\<close> passes validation with the value \<open>2^32\<close>, a safe integer;
  the code generator emits for it the opcode of \<open>i64.const\<close> and the bytes of
  \<open>LEB(4294967296)\<close>, which is the single byte 0, since the bitwise operators of \<open>LEB\<close>
  cut their operand to 32 bits; decoding that byte gives 0.
\<close>

theorem i64_literal_is_cut_to_32_bits:
  "validate \<lparr>parentType = INIT_EXPR, fnMeta = None, loopsInFunction = 0, defaultMemoryLength = 0,
       defaultTableLength = 0\<rparr>
     (createASTNode I64_LITERAL ''4294967296x64'' []) True
     \<lparr>loops = [], fnNames = [], fnVariables = []\<rparr>
   = Inr (Node I64_LITERAL ''4294967296x64'' (LiteralMeta (IntNum 4294967296) ''i64'') ''i64''
            False False [],
          \<lparr>loops = [], fnNames = [], fnVariables = []\<rparr>)
   \<and> generate \<lparr>gparentType = INIT_EXPR, loopDepths = []\<rparr>
       (Node I64_LITERAL ''4294967296x64'' (LiteralMeta (IntNum 4294967296) ''i64'') ''i64''
            False False []) 0
       \<lparr>path = ''init_expr'', parts = [], totalSize = 0\<rparr>
     = Inr \<lparr>path = ''init_expr'',
            parts = [Part (ByteCode (Some 0x42)) ''op'' ''init_expr|op'',
                     Part (ByteList [0]) ''value'' ''init_expr|value''],
            totalSize = 2\<rparr>
   \<and> LEB 4294967296 [] = [0]
   \<and> decodeSLEB128 (LEB 4294967296 []) = Some 0"
proof -
  have c: "codeTable ''i64.const'' = Some 0x42"
    by code_simp
  have v: "parseInt (sliceEnd ''4294967296x64'' 3) = IntNum 4294967296"
    by (simp add: parseInt_def isDigitChar_def sliceEnd_def)
  show ?thesis
    by (simp add: createASTNode_def validate.simps(1) binaryOperatorTypes_def
        validateI64Literal_def v isSafeInteger_def generate_literal literal_def then_do_def
        finishNode_def op_def byte_def bytes_def c LEB_two_to_32)
qed

section \<open>Properties of the lexer\<close>

lemma ms_le: "n \<in> set (ms r s) \<Longrightarrow> n \<le> length s"
proof (induction r s arbitrary: n rule: ms.induct)
  case (1 c s)
  then show ?case by (auto split: list.splits if_splits)
next
  case (2 l s)
  then show ?case by (auto simp: str_def prefix_def split: if_splits)
next
  case (3 a b s)
  from "3.prems" obtain k m where k: "k \<in> set (ms a s)" and m: "m \<in> set (ms b (drop k s))"
    and n: "n = k + m" by auto
  from "3.IH"(1) [OF k] have "k \<le> length s" .
  moreover from "3.IH"(2) [OF k m] have "m \<le> length s - k" by simp
  ultimately show ?case using n by simp
next
  case (4 a b s)
  then show ?case by auto
next
  case (5 a s)
  then show ?case by auto
next
  case (6 a s)
  show ?case
  proof (cases "n = 0")
    case True
    then show ?thesis by simp
  next
    case False
    have eq: "ms (Star a) s = concat (map (\<lambda>n. if 0 < n \<and> n \<le> length s
        then map (\<lambda>m. n + m) (ms (Star a) (drop n s)) else []) (ms a s)) @ [0]"
      by (rule ms.simps(6))
    from "6.prems" have "n \<in> set (concat (map (\<lambda>n. if 0 < n \<and> n \<le> length s
        then map (\<lambda>m. n + m) (ms (Star a) (drop n s)) else []) (ms a s)) @ [0])"
      by (simp only: eq)
    with False obtain k m where k: "k \<in> set (ms a s)" and k0: "0 < k \<and> k \<le> length s"
      and m: "m \<in> set (ms (Star a) (drop k s))" and n: "n = k + m"
      by (auto split: if_splits)
    from "6.IH"(2) [OF k k0 m] have "m \<le> length s - k" by simp
    then show ?thesis using n k0 by arith
  qed
next
  case (7 a s)
  from "7.prems" have "n = 0" by (simp split: if_splits)
  then show ?case by simp
next
  case (8 a s)
  from "8.prems" have "n = 0" by (simp split: if_splits)
  then show ?case by simp
qed

lemma ms_pos: "nonnull r \<Longrightarrow> n \<in> set (ms r s) \<Longrightarrow> 0 < n"
proof (induction r arbitrary: n s)
  case (Cls c)
  then show ?case by (auto split: list.splits if_splits)
next
  case (Lit l)
  then show ?case by (auto split: if_splits)
next
  case (Seq a b)
  from Seq.prems(2) obtain k m where k: "k \<in> set (ms a s)" and m: "m \<in> set (ms b (drop k s))"
    and n: "n = k + m" by auto
  from Seq.prems(1) have "nonnull a \<or> nonnull b" by simp
  then show ?case
  proof
    assume "nonnull a"
    from Seq.IH(1) [OF this k] show ?thesis using n by simp
  next
    assume "nonnull b"
    from Seq.IH(2) [OF this m] show ?thesis using n by simp
  qed
next
  case (Alt a b)
  then show ?case by auto
next
  case (Opt a)
  from Opt.prems(1) show ?case by simp
next
  case (Star a)
  from Star.prems(1) show ?case by simp
next
  case (Ahead a)
  from Ahead.prems(1) show ?case by simp
next
  case (NotAhead a)
  from NotAhead.prems(1) show ?case by simp
qed


lemma patterns_nonnull: "list_all nonnull patterns"
  by (simp add: patterns_def lexerData_def kw_def Plus_def valueTypeNames_def)

lemma firstGroup_Some:
  "firstGroup rs i s = Some (j, m) \<Longrightarrow> list_all nonnull rs \<Longrightarrow>
     \<exists>n. 0 < n \<and> n \<le> length s \<and> m = take n s \<and> i \<le> j \<and> j < i + length rs"
proof (induction rs arbitrary: i)
  case Nil
  then show ?case by simp
next
  case (Cons r rs)
  show ?case
  proof (cases "ms r s")
    case Nil
    with Cons.prems have "firstGroup rs (i + 1) s = Some (j, m)" "list_all nonnull rs"
      by simp_all
    from Cons.IH [OF this] show ?thesis by auto
  next
    case (Cons n ns)
    then have n: "n \<in> set (ms r s)" by simp
    from Cons.prems(2) have "nonnull r" by simp
    from ms_pos [OF this n] ms_le [OF n] Cons Cons.prems(1) show ?thesis by auto
  qed
qed

lemma firstGroup_None: "firstGroup rs i s = None \<Longrightarrow> r \<in> set rs \<Longrightarrow> ms r s = []"
  by (induction rs arbitrary: i) (auto split: list.splits)

lemma lineTerminator_isSpace: "isLineTerminator c \<Longrightarrow> isSpace c"
  by (auto simp: isLineTerminator_def isSpace_def)

lemma regexp_exec_matches:
  assumes "lastIndex < length text"
  shows "\<exists>i n. regexp_exec text lastIndex = Some (i, take n (drop lastIndex text))
           \<and> 0 < n \<and> lastIndex + n \<le> length text \<and> 1 \<le> i \<and> i \<le> length ASTypes"
proof -
  from assms obtain c cs where s: "drop lastIndex text = c # cs"
    by (cases "drop lastIndex text") auto
  have ws: "Cls Space \<in> set patterns" and bad: "Cls AnyChar \<in> set patterns"
    by (simp_all add: patterns_def lexerData_def)
  have "regexp_exec text lastIndex \<noteq> None"
  proof
    assume "regexp_exec text lastIndex = None"
    then have none: "firstGroup patterns 1 (c # cs) = None"
      by (simp add: regexp_exec_def s)
    from firstGroup_None [OF none ws] have "\<not> isSpace c" by (simp split: if_splits)
    moreover from firstGroup_None [OF none bad] have "isLineTerminator c"
      by (simp split: if_splits)
    ultimately show False using lineTerminator_isSpace by blast
  qed
  then obtain i m where some: "firstGroup patterns 1 (drop lastIndex text) = Some (i, m)"
    by (auto simp: regexp_exec_def)
  from firstGroup_Some [OF some patterns_nonnull]
  obtain n where "0 < n" "n \<le> length (drop lastIndex text)" "m = take n (drop lastIndex text)"
    "1 \<le> i" "i < 1 + length patterns" by blast
  moreover have "length ASTypes = length patterns"
    by (simp add: ASTypes_def patterns_def)
  ultimately show ?thesis using some assms
    by (auto simp: regexp_exec_def)
qed

lemma lexifyLoop_total:
  "lastIndex \<le> length text \<Longrightarrow>
     \<exists>toks. lexifyLoop text lastIndex tokens = Some (Inr (tokens @ toks))
       \<and> concat (map tokText toks) = drop lastIndex text"
proof (induction "length text - lastIndex" arbitrary: lastIndex tokens rule: less_induct)
  case less
  show ?case
  proof (cases "lastIndex < length text")
    case False
    with less.prems have "lastIndex = length text" by simp
    then show ?thesis by (subst lexifyLoop.simps) simp
  next
    case True
    from regexp_exec_matches [OF True] obtain i n where
      ex: "regexp_exec text lastIndex = Some (i, take n (drop lastIndex text))"
      and n: "0 < n" "lastIndex + n \<le> length text" by blast
    let ?m = "take n (drop lastIndex text)"
    let ?t = "\<lparr>tokASType = ASTypes ! (i - 1), tokText = ?m, tokLength = length ?m,
      tokPos = lastIndex\<rparr>"
    have len: "length ?m = n" using n by simp
    have step: "lexifyLoop text lastIndex tokens = lexifyLoop text (lastIndex + n) (tokens @ [?t])"
      using True ex len by (subst lexifyLoop.simps) simp
    have "length text - (lastIndex + n) < length text - lastIndex"
      using n True by arith
    from less.hyps [OF this n(2), of "tokens @ [?t]"] obtain toks where
      rest: "lexifyLoop text (lastIndex + n) (tokens @ [?t]) = Some (Inr ((tokens @ [?t]) @ toks))"
      and cat: "concat (map tokText toks) = drop (lastIndex + n) text" by blast
    have "concat (map tokText (?t # toks)) = ?m @ drop n (drop lastIndex text)"
      using cat by (simp add: add.commute)
    then have "concat (map tokText (?t # toks)) = drop lastIndex text"
      by (simp only: append_take_drop_id)
    with step rest show ?thesis by (intro exI [of _ "?t # toks"]) simp
  qed
qed

text \<open>
  C6. When \<open>lexify\<close> returns a token list for a source text, the texts of the tokens
  before the end-of-input sentinel, concatenated in order, are the source text itself:
  white space, comments and unrecognised characters are all kept.
\<close>

theorem lexify_round_trip:
  "lexify text = Some (Inr tokens) \<Longrightarrow> concat (map tokText (butlast tokens)) = text"
proof -
  assume a: "lexify text = Some (Inr tokens)"
  from lexifyLoop_total [of 0 _ "[]"] obtain toks where
    l: "lexifyLoop text 0 [] = Some (Inr toks)" and c: "concat (map tokText toks) = text"
    by auto
  from a l have "tokens = toks @ [\<lparr>tokASType = END_OF_INPUT, tokText = str [CHR 0x0A],
      tokLength = 1, tokPos = length text\<rparr>]"
    by (simp add: lexify_def)
  with c show ?thesis by simp
qed

theorem lexify_round_trip_witness:
  "lexify (str '' ='') = Some (Inr
     [\<lparr>tokASType = WS, tokText = str '' '', tokLength = 1, tokPos = 0\<rparr>,
      \<lparr>tokASType = ASSIGN, tokText = str ''='', tokLength = 1, tokPos = 1\<rparr>,
      \<lparr>tokASType = END_OF_INPUT, tokText = [10], tokLength = 1, tokPos = 2\<rparr>])
   \<and> concat (map tokText (butlast
     [\<lparr>tokASType = WS, tokText = str '' '', tokLength = 1, tokPos = 0\<rparr>,
      \<lparr>tokASType = ASSIGN, tokText = str ''='', tokLength = 1, tokPos = 1\<rparr>,
      \<lparr>tokASType = END_OF_INPUT, tokText = [10], tokLength = 1, tokPos = 2\<rparr>]))
     = str '' =''"
proof -
  have h: "lexify (str '' ='') = Some (Inr
     [\<lparr>tokASType = WS, tokText = str '' '', tokLength = 1, tokPos = 0\<rparr>,
      \<lparr>tokASType = ASSIGN, tokText = str ''='', tokLength = 1, tokPos = 1\<rparr>,
      \<lparr>tokASType = END_OF_INPUT, tokText = [10], tokLength = 1, tokPos = 2\<rparr>])"
    by (simp add: lexify_def lexifyLoop.simps regexp_exec_def patterns_def ASTypes_def
        lexerData_def str_def isSpace_def)
  from lexify_round_trip [OF h] h show ?thesis by simp
qed

text \<open>
  C10. For every source text the lexer returns a token list; the list is not empty and
  its last element is the end-of-input sentinel, whose text is a line feed, whose length
  is 1 and whose position is the length of the source text. For the empty text the
  sentinel is the only token.
\<close>

theorem lexify_sentinel:
  "(\<exists>tokens. lexify text = Some (Inr tokens) \<and> tokens \<noteq> []
      \<and> last tokens = \<lparr>tokASType = END_OF_INPUT, tokText = [10], tokLength = 1,
            tokPos = length text\<rparr>)
   \<and> lexify [] = Some (Inr [\<lparr>tokASType = END_OF_INPUT, tokText = [10], tokLength = 1,
            tokPos = 0\<rparr>])"
proof
  from lexifyLoop_total [of 0 _ "[]"] obtain toks where
    l: "lexifyLoop text 0 [] = Some (Inr toks)" by auto
  then show "\<exists>tokens. lexify text = Some (Inr tokens) \<and> tokens \<noteq> []
      \<and> last tokens = \<lparr>tokASType = END_OF_INPUT, tokText = [10], tokLength = 1,
            tokPos = length text\<rparr>"
    by (simp add: lexify_def str_def)
next
  have "lexifyLoop [] 0 [] = Some (Inr [])"
    by (subst lexifyLoop.simps) simp
  then show "lexify [] = Some (Inr [\<lparr>tokASType = END_OF_INPUT, tokText = [10], tokLength = 1,
            tokPos = 0\<rparr>])"
    by (simp add: lexify_def str_def)
qed

section \<open>Properties of the index spaces\<close>

lemma setIndices_length: "length (setIndices i offset ds) = length ds"
proof (induction i offset ds rule: setIndices.induct)
  case (1 i offset ds)
  show ?case
  proof (cases "i < length ds")
    case True
    with 1 show ?thesis by (subst setIndices.simps) simp
  next
    case False
    then show ?thesis by (subst setIndices.simps) simp
  qed
qed

lemma setIndices_nth:
  "k < length ds \<Longrightarrow>
     setIndices i offset ds ! k = (if i \<le> k then (ds ! k)\<lparr>index := k + offset\<rparr> else ds ! k)"
proof (induction i offset ds rule: setIndices.induct)
  case (1 i offset ds)
  show ?case
  proof (cases "i < length ds")
    case True
    let ?ds = "ds[i := (ds ! i)\<lparr>index := i + offset\<rparr>]"
    have "setIndices i offset ds ! k = setIndices (i + 1) offset ?ds ! k"
      using True by (subst setIndices.simps) simp
    also have "\<dots> = (if i + 1 \<le> k then (?ds ! k)\<lparr>index := k + offset\<rparr> else ?ds ! k)"
      using "1.IH" [OF True] "1.prems" by simp
    also have "\<dots> = (if i \<le> k then (ds ! k)\<lparr>index := k + offset\<rparr> else ds ! k)"
    proof (cases "k = i")
      case True
      then show ?thesis using "1.prems" by simp
    next
      case False
      then show ?thesis using "1.prems" by (auto simp: nth_list_update)
    qed
    finally show ?thesis .
  next
    case False
    with "1.prems" show ?thesis by (subst setIndices.simps) simp
  qed
qed

lemma setIndices_index: "map index (setIndices 0 offset ds) = [offset..<offset + length ds]"
  by (rule nth_equalityI) (simp_all add: setIndices_length setIndices_nth add.commute)

lemma setIndices_others:
  "map (\<lambda>d. d\<lparr>index := 0\<rparr>) (setIndices 0 offset ds) = map (\<lambda>d. d\<lparr>index := 0\<rparr>) ds"
  by (rule nth_equalityI) (simp_all add: setIndices_length setIndices_nth)

text \<open>
  C3. After \<open>orderGlobals\<close> the imported functions carry the indices \<open>0, ..., M - 1\<close>
  and the defined functions the indices \<open>M, ..., M + N - 1\<close>, each in the order of its
  list; likewise the imported globals and the defined global variables. Every index of a
  space is therefore given exactly once and without a gap. Nothing but the index of a
  definition changes.
\<close>

theorem orderGlobals_index_spaces:
  "map index (importsFunction (orderGlobals scope)) = [0..<length (importsFunction scope)]
   \<and> map index (scopeFunctions (orderGlobals scope))
     = [length (importsFunction scope)..<length (importsFunction scope) + length (scopeFunctions scope)]
   \<and> map index (importsFunction (orderGlobals scope) @ scopeFunctions (orderGlobals scope))
     = [0..<length (importsFunction scope) + length (scopeFunctions scope)]
   \<and> map index (importsGlobal (orderGlobals scope)) = [0..<length (importsGlobal scope)]
   \<and> map index (scopeVariables (orderGlobals scope))
     = [length (importsGlobal scope)..<length (importsGlobal scope) + length (scopeVariables scope)]
   \<and> map index (importsGlobal (orderGlobals scope) @ scopeVariables (orderGlobals scope))
     = [0..<length (importsGlobal scope) + length (scopeVariables scope)]
   \<and> map (\<lambda>d. d\<lparr>index := 0\<rparr>) (importsFunction (orderGlobals scope))
     = map (\<lambda>d. d\<lparr>index := 0\<rparr>) (importsFunction scope)
   \<and> map (\<lambda>d. d\<lparr>index := 0\<rparr>) (scopeFunctions (orderGlobals scope))
     = map (\<lambda>d. d\<lparr>index := 0\<rparr>) (scopeFunctions scope)
   \<and> map (\<lambda>d. d\<lparr>index := 0\<rparr>) (importsGlobal (orderGlobals scope))
     = map (\<lambda>d. d\<lparr>index := 0\<rparr>) (importsGlobal scope)
   \<and> map (\<lambda>d. d\<lparr>index := 0\<rparr>) (scopeVariables (orderGlobals scope))
     = map (\<lambda>d. d\<lparr>index := 0\<rparr>) (scopeVariables scope)"
proof -
  have "[0..<length (importsFunction scope)] @
      [length (importsFunction scope)..<length (importsFunction scope) + length (scopeFunctions scope)]
      = [0..<length (importsFunction scope) + length (scopeFunctions scope)]"
    by (metis le_add1 upt_add_eq_append zero_le)
  moreover have "[0..<length (importsGlobal scope)] @
      [length (importsGlobal scope)..<length (importsGlobal scope) + length (scopeVariables scope)]
      = [0..<length (importsGlobal scope) + length (scopeVariables scope)]"
    by (metis le_add1 upt_add_eq_append zero_le)
  ultimately show ?thesis
    using setIndices_index [of 0]
    by (simp add: orderGlobals_def Let_def setIndices_index setIndices_others)
qed

section \<open>Properties of the validator\<close>

lemma validate_literals:
  "parentType ctx \<noteq> NEG \<Longrightarrow>
   validate ctx (Node I32_LITERAL ''1'' m rt ae dv cs) vr st
     = Inr (Node I32_LITERAL ''1'' (LiteralMeta (IntNum 1) ''i32'') ''i32'' ae dv cs, st)"
  "parentType ctx \<noteq> NEG \<Longrightarrow>
   validate ctx (Node I64_LITERAL ''2x64'' m rt ae dv cs) vr st
     = Inr (Node I64_LITERAL ''2x64'' (LiteralMeta (IntNum 2) ''i64'') ''i64'' ae dv cs, st)"
  by (simp_all add: validate.simps(1) binaryOperatorTypes_def validateI32Literal_def
      validateI64Literal_def parseInt_def isDigitChar_def greaterThan_def isSafeInteger_def
      sliceEnd_def)

lemma validate_OR:
  "validate ctx (Node OR tok m rt ae dv [left, right]) vr st =
     (case validate (ctx\<lparr>parentType := OR\<rparr>) left True st of
        Inl e \<Rightarrow> Inl e
      | Inr (left', st1) \<Rightarrow>
          if alwaysEscapes left'
          then Inl (unreachableCode left' (Node OR tok m rt ae dv [left', right]))
          else
            (case validate (ctx\<lparr>parentType := OR\<rparr>) right True st1 of
               Inl e \<Rightarrow> Inl e
             | Inr (right', st2) \<Rightarrow> finishOr ctx tok m rt ae dv left' right' st2))"
  by (simp add: validate.simps(1) binaryOperatorTypes_def)

lemma validate_AND:
  "validate ctx (Node AND tok m rt ae dv [left, right]) vr st =
     (case validate (ctx\<lparr>parentType := AND\<rparr>) left True st of
        Inl e \<Rightarrow> Inl e
      | Inr (left', st1) \<Rightarrow>
          if alwaysEscapes left'
          then Inl (unreachableCode left' (Node AND tok m rt ae dv [left', right]))
          else
            (case validate (ctx\<lparr>parentType := AND\<rparr>) right True st1 of
               Inl e \<Rightarrow> Inl e
             | Inr (right', st2) \<Rightarrow>
                 (case finishAnd tok m rt ae dv left' right' of
                    Inl e \<Rightarrow> Inl e
                  | Inr node' \<Rightarrow> Inr (node', st2))))"
  by (simp add: validate.simps(1) binaryOperatorTypes_def)

lemma and_inconsistent_type:
  assumes "validate (ctx\<lparr>parentType := AND\<rparr>) left True st = Inr (left', st1)"
    and "\<not> alwaysEscapes left'"
    and "validate (ctx\<lparr>parentType := AND\<rparr>) right True st1 = Inr (right', st2)"
    and "node.runType right' \<noteq> node.runType left'"
  shows "validate ctx (Node AND tok m rt ae dv [left, right]) vr st
    = Inl (CompileError ''Inconsistent Type For Boolean''
        [(''node'', PNode (Node AND tok m rt ae dv [left', right'])),
         (''leftType'', PType (node.runType left')), (''rightType'', PType (node.runType right'))])"
  using assms by (simp add: validate_AND finishAnd_def)

text \<open>
  C5. When the two operands of a short-circuit \<open>or\<close> validate to different run types
  (the left one not escaping), the validator does not fail with the compile error
  \<open>Inconsistent Type For Boolean\<close>: building the data of that error reads the
  undeclared variables \<open>leftType\<close> and \<open>rightType\<close>, and what is raised is a
  ReferenceError. The \<open>and\<close> case raises the compile error with the node and the two
  run types (\<open>and_inconsistent_type\<close>).
\<close>

theorem or_inconsistent_type_raises_reference_error:
  assumes "validate (ctx\<lparr>parentType := OR\<rparr>) left True st = Inr (left', st1)"
    and "\<not> alwaysEscapes left'"
    and "validate (ctx\<lparr>parentType := OR\<rparr>) right True st1 = Inr (right', st2)"
    and "node.runType right' \<noteq> node.runType left'"
  shows "validate ctx (Node OR tok m rt ae dv [left, right]) vr st
    = Inl (ReferenceError ''leftType is not defined'')"
  using assms by (simp add: validate_OR finishOr_def)

theorem or_inconsistent_type_raises_reference_error_witness:
  "validate \<lparr>parentType = BLOCK, fnMeta = None, loopsInFunction = 0, defaultMemoryLength = 0,
       defaultTableLength = 0\<rparr>
     (createASTNode OR ''or''
        [createASTNode I32_LITERAL ''1'' [], createASTNode I64_LITERAL ''2x64'' []])
     True \<lparr>loops = [], fnNames = [], fnVariables = []\<rparr>
   = Inl (ReferenceError ''leftType is not defined'')"
proof -
  let ?ctx = "\<lparr>parentType = BLOCK, fnMeta = None, loopsInFunction = 0, defaultMemoryLength = 0,
       defaultTableLength = 0\<rparr>"
  let ?st = "\<lparr>loops = [], fnNames = [], fnVariables = []\<rparr>"
  have l: "validate (?ctx\<lparr>parentType := OR\<rparr>) (createASTNode I32_LITERAL ''1'' []) True ?st
      = Inr (Node I32_LITERAL ''1'' (LiteralMeta (IntNum 1) ''i32'') ''i32'' False False [], ?st)"
    by (simp add: createASTNode_def validate_literals)
  have r: "validate (?ctx\<lparr>parentType := OR\<rparr>) (createASTNode I64_LITERAL ''2x64'' []) True ?st
      = Inr (Node I64_LITERAL ''2x64'' (LiteralMeta (IntNum 2) ''i64'') ''i64'' False False [], ?st)"
    by (simp add: createASTNode_def validate_literals)
  from or_inconsistent_type_raises_reference_error [OF l _ r, of "''or''" NullMeta "''void''" False False True]
  show ?thesis by (simp add: createASTNode_def)
qed







section \<open>The bare \<open>if\<close>\<close>















section \<open>Properties of the code generator\<close>

lemma alignmentLoop_le: "alignmentLoop a n \<le> a"
proof (induction a n rule: alignmentLoop.induct)
  case (1 alignment offset)
  show ?case
  proof (cases "offset mod 2 ^ alignment \<noteq> 0")
    case True
    with 1 have "alignmentLoop (alignment - 1) offset \<le> alignment - 1" by simp
    with True show ?thesis by (subst alignmentLoop.simps) simp
  next
    case False
    then show ?thesis by (subst alignmentLoop.simps) simp
  qed
qed

lemma alignmentLoop_dvd: "2 ^ alignmentLoop a n dvd n"
proof (induction a n rule: alignmentLoop.induct)
  case (1 alignment offset)
  show ?case
  proof (cases "offset mod 2 ^ alignment \<noteq> 0")
    case True
    with 1 show ?thesis by (subst alignmentLoop.simps) simp
  next
    case False
    then show ?thesis by (subst alignmentLoop.simps) (simp add: dvd_eq_mod_eq_0)
  qed
qed

lemma alignmentLoop_greatest: "b \<le> a \<Longrightarrow> 2 ^ b dvd n \<Longrightarrow> b \<le> alignmentLoop a n"
proof (induction a n rule: alignmentLoop.induct)
  case (1 alignment offset)
  show ?case
  proof (cases "offset mod 2 ^ alignment \<noteq> 0")
    case True
    then have "\<not> (2::nat) ^ alignment dvd offset" by (simp add: dvd_eq_mod_eq_0)
    with "1.prems" have "b \<noteq> alignment" by auto
    with "1.prems" have "b \<le> alignment - 1" by simp
    from "1.IH" [OF True this "1.prems"(2)] True show ?thesis
      by (subst alignmentLoop.simps) simp
  next
    case False
    with "1.prems" show ?thesis by (subst alignmentLoop.simps) simp
  qed
qed

lemma alignmentLoop_zero: "alignmentLoop a 0 = a"
  by (subst alignmentLoop.simps) simp

lemma storageSize_pointerDefinition:
  "storageType \<in> set storageTypeTexts \<Longrightarrow>
     storageSize (pointerDefinition base storageType) \<in> {1, 2, 4, 8}"
  by (auto simp: storageTypeTexts_def pointerDefinition_def digitsToNat_def Let_def)

lemma log2_values: "log2 1 = Some 0" "log2 2 = Some 1" "log2 4 = Some 2" "log2 8 = Some 3"
  by (simp_all add: log2.simps)

lemma uLEB_small: "0 \<le> n \<Longrightarrow> n < 128 \<Longrightarrow> uLEB n [] = [n]"
proof -
  assume n: "0 \<le> n" "n < 128"
  then have "ToInt32 n = n" "ToUint32 n = n" by (simp_all add: ToInt32_def ToUint32_def)
  moreover have "and n 127 = n"
  proof -
    have "and n 127 = and n (mask 7)" by (simp add: mask_eq_exp_minus_1)
    also have "\<dots> = take_bit 7 n" by (simp add: take_bit_eq_mask)
    also have "\<dots> = n" using n by (simp add: take_bit_int_eq_self)
    finally show ?thesis .
  qed
  ultimately show ?thesis using n by (subst uLEB.simps) (simp add: drop_bit_eq_div)
qed

lemma generate_MEMORY_ACCESS:
  "generate ctx (Node MEMORY_ACCESS tok (DefinitionMeta d) rt ae dv
       (Node aty atok am art aae adv (address # rest) # others)) depth c =
     (case accessParameters d rest of
        Inl e \<Rightarrow> Inl e
      | Inr (offset, alignment) \<Rightarrow>
          (case generate (ctx\<lparr>gparentType := aty\<rparr>) address depth c of
             Inl e \<Rightarrow> Inl e
           | Inr c1 \<Rightarrow> then_do (emitMemoryLoad d offset alignment c1) (finishNode dv)))"
  by (simp add: generate.simps(1) binaryOperatorTypes_def metaDefinition_def)

lemma generate_ASSIGN_memory:
  "generate ctx (Node ASSIGN tok m rt ae dv
       [Node MEMORY_ACCESS ltok (DefinitionMeta d) lrt lae ldv
          (Node aty atok am art aae adv (address # rest) # others), right]) depth c =
     (case accessParameters d rest of
        Inl e \<Rightarrow> Inl e
      | Inr (offset, alignment) \<Rightarrow>
          (case generate (ctx\<lparr>gparentType := aty\<rparr>) address depth c of
             Inl e \<Rightarrow> Inl e
           | Inr c1 \<Rightarrow>
               (case emitAddressing d c1 of
                  Inl e \<Rightarrow> Inl e
                | Inr c2 \<Rightarrow>
                    (case generate (ctx\<lparr>gparentType := ASSIGN\<rparr>) right depth c2 of
                       Inl e \<Rightarrow> Inl e
                     | Inr c3 \<Rightarrow> emitMemoryStore d offset alignment dv m c3))))"
  by (simp add: generate.simps(1) binaryOperatorTypes_def metaDefinition_def)

lemma varuint_parts:
  "varuint v fld c = Inr c' \<Longrightarrow>
     parts c' = parts c @ [Part (ByteList (uLEB v [])) fld (path c @ ''|'' @ fld)] \<and> path c' = path c"
  by (auto simp: varuint_def bytes_def split: if_splits)

lemma op_parts:
  "parts (op code c) = parts c @ [Part (ByteCode (codeTable code)) ''op'' (path c @ ''|op'')]"
  "path (op code c) = path c"
  by (simp_all add: op_def byte_def)

lemma emitMemoryLoad_flags:
  assumes "emitMemoryLoad d (IntNum offset) a c = Inr c'"
  shows "emittedField ''flags'' c c' = [ByteList (uLEB (int a) [])]"
proof -
  from assms obtain c1 c2 c3 where
    1: "getVariable (index d) (isGlobal d) c = Inr c1"
    and 2: "varuint (int (storageSize d)) ''value'' (op ''i32.const'' (op ''i32.add'' c1)) = Inr c2"
    and 3: "varuint (int a) ''flags'' (op (defn.runType d @ ''.load''
               @ (if extendedType d then storageBits d @ ''_'' @ storageSigned d else []))
             (op ''i32.mul'' c2)) = Inr c3"
    and 4: "varuint offset ''offset'' c3 = Inr c'"
    by (auto simp: emitMemoryLoad_def then_do_def varuintNumber_def split: sum.splits)
  from 1 obtain g where g: "parts c1 = parts c @ [Part (ByteCode (codeTable g)) ''op'' (path c @ ''|op''),
      Part (ByteList (uLEB (int (index d)) [])) (if isGlobal d then ''global_index'' else ''local_index'')
        (path c @ ''|'' @ (if isGlobal d then ''global_index'' else ''local_index''))]"
    by (auto simp: getVariable_def op_parts dest!: varuint_parts split: if_splits)
  from varuint_parts [OF 2] varuint_parts [OF 3] varuint_parts [OF 4] g
  show ?thesis by (simp add: emittedField_def op_parts)
qed

lemma emitMemoryStore_flags:
  assumes "emitMemoryStore d (IntNum offset) a dv m c = Inr c'"
  shows "emittedField ''flags'' c c' = [ByteList (uLEB (int a) [])]"
  using assms unfolding emitMemoryStore_def then_do_def varuintNumber_def Let_def emittedField_def
  by (auto split: sum.splits meta.splits if_splits dest!: varuint_parts simp: op_parts)

lemma accessParameters_alignment:
  assumes st: "storageType \<in> set storageTypeTexts"
    and off: "offsetOf rest = Inr (IntNum offset)" and nonneg: "0 \<le> offset"
  shows "\<exists>a. accessParameters (pointerDefinition base storageType) rest = Inr (IntNum offset, a)
      \<and> uLEB (int a) [] = [int a]
      \<and> 2 ^ a dvd nat offset
      \<and> 2 ^ a \<le> storageSize (pointerDefinition base storageType)
      \<and> (\<forall>b. 2 ^ b \<le> storageSize (pointerDefinition base storageType) \<and> 2 ^ b dvd nat offset
            \<longrightarrow> b \<le> a)
      \<and> (offset = 0 \<longrightarrow> 2 ^ a = storageSize (pointerDefinition base storageType))"
proof -
  let ?d = "pointerDefinition base storageType"
  from storageSize_pointerDefinition [OF st, of base]
  obtain k where k: "log2 (storageSize ?d) = Some k" "storageSize ?d = 2 ^ k" "k \<le> 3"
    using log2_values by (elim insertE emptyE) (force intro: that [of 0] that [of 1] that [of 2] that [of 3])+
  let ?a = "alignmentLoop k (nat offset)"
  have ap: "accessParameters ?d rest = Inr (IntNum offset, ?a)"
    using off nonneg k(1) by (simp add: accessParameters_def calculateAlignment_def)
  have le: "?a \<le> k" by (rule alignmentLoop_le)
  then have "int ?a < 128" using k(3) by simp
  then have enc: "uLEB (int ?a) [] = [int ?a]" by (intro uLEB_small) simp_all
  have size: "(2::nat) ^ ?a \<le> storageSize ?d"
    using le k(2) by (simp add: power_increasing)
  have greatest: "b \<le> ?a" if "2 ^ b \<le> storageSize ?d" "2 ^ b dvd nat offset" for b
  proof -
    from that(1) k(2) have "b \<le> k" by (simp add: power_le_imp_le_exp)
    then show ?thesis using that(2) by (rule alignmentLoop_greatest)
  qed
  have zero: "2 ^ ?a = storageSize ?d" if "offset = 0"
    using that k(2) by (simp add: alignmentLoop_zero)
  from ap enc alignmentLoop_dvd size greatest zero show ?thesis by blast
qed

lemma varuint_ok:
  "0 \<le> v \<Longrightarrow> v < 2 ^ 32 \<Longrightarrow> varuint v fld c = Inr (bytes (uLEB v []) fld c)"
  by (simp add: varuint_def)

lemma getVariable_ok:
  "int idx < 2 ^ 32 \<Longrightarrow> \<exists>c'. getVariable idx global c = Inr c'"
  by (simp add: getVariable_def varuint_ok)

lemma emitMemoryLoad_ok:
  assumes "int (index d) < 2 ^ 32" and "storageSize d \<le> 8" and "a \<le> 3"
    and "0 \<le> offset" and "offset < 2 ^ 32"
  shows "\<exists>c'. emitMemoryLoad d (IntNum offset) a c = Inr c'"
proof -
  have s: "int (storageSize d) < 2 ^ 32" using assms(2) by simp
  have a: "int a < 2 ^ 32" using assms(3) by simp
  show ?thesis
    using assms(1,4,5) s a
    by (simp add: emitMemoryLoad_def then_do_def getVariable_def varuintNumber_def varuint_ok)
qed

lemma emitAddressing_ok:
  assumes "int (index d) < 2 ^ 32" and "storageSize d \<le> 8"
  shows "\<exists>c'. emitAddressing d c = Inr c'"
proof -
  have s: "int (storageSize d) < 2 ^ 32" using assms(2) by simp
  show ?thesis
    using assms(1) s
    by (simp add: emitAddressing_def then_do_def getVariable_def varuint_ok)
qed

lemma emitMemoryStore_ok:
  assumes "a \<le> 3" and "0 \<le> offset" and "offset < 2 ^ 32"
    and "dv \<or> (\<exists>t. m = TempVariableMeta t \<and> int (index t) < 2 ^ 32)"
  shows "\<exists>c'. emitMemoryStore d (IntNum offset) a dv m c = Inr c'"
proof -
  have a: "int a < 2 ^ 32" using assms(1) by simp
  show ?thesis
    using assms(2,3,4) a
    by (auto simp add: emitMemoryStore_def then_do_def varuintNumber_def varuint_ok Let_def)
qed

lemma emittedField_finishNode:
  "finishNode dv c' = Inr c'' \<Longrightarrow> fld \<noteq> ''op'' \<Longrightarrow>
     emittedField fld c c'' = emittedField fld c c'"
  by (auto simp: finishNode_def emittedField_def op_parts filter_empty_conv
      dest!: in_set_dropD split: if_splits)

lemma index_pointerDefinition:
  "index (pointerDefinition base storageType) = index base"
  by (simp add: pointerDefinition_def Let_def)

lemma generate_i32_literal:
  "generate ctx (Node I32_LITERAL tok (LiteralMeta (IntNum n) ''i32'') rt ae False cs) depth c
     = Inr (bytes (LEB n []) ''value'' (op ''i32.const'' c))"
  by (simp add: generate.simps(1) binaryOperatorTypes_def literal_def then_do_def finishNode_def)

text \<open>
  C2. Take a pointer of any storage type, with an index that fits a 32-bit varuint, and
  a static byte offset below \<open>2^32\<close> (0 when the access gives none). There is an
  exponent \<open>a\<close>, that of the largest power of two that is at most the storage size in
  bytes and divides the offset (with the offset 0 this power is the storage size itself),
  such that: whenever the code of the address is generated, the code of a load from the
  pointer is generated too, and what it emits after the address holds exactly one
  \<open>flags\<close> field, the byte \<open>a\<close>; and the same for a store, after the code of the
  right-hand side, when the value of the assignment is dropped or the assignment has its
  temporary variable.
\<close>

theorem memory_access_alignment:
  assumes "storageType \<in> set storageTypeTexts"
    and "offsetOf rest = Inr (IntNum offset)" and "0 \<le> offset" and "offset < 2 ^ 32"
    and "int (index base) < 2 ^ 32"
  shows "\<exists>a. accessParameters (pointerDefinition base storageType) rest = Inr (IntNum offset, a)
      \<and> 2 ^ a dvd nat offset
      \<and> 2 ^ a \<le> storageSize (pointerDefinition base storageType)
      \<and> (\<forall>b. 2 ^ b \<le> storageSize (pointerDefinition base storageType) \<and> 2 ^ b dvd nat offset
            \<longrightarrow> b \<le> a)
      \<and> (rest = [] \<longrightarrow> offset = 0)
      \<and> (offset = 0 \<longrightarrow> 2 ^ a = storageSize (pointerDefinition base storageType))
      \<and> (\<forall>ctx tok rt ae dv aty atok am art aae adv address others depth c c1.
            generate (ctx\<lparr>gparentType := aty\<rparr>) address depth c = Inr c1 \<longrightarrow>
            (\<exists>c'. generate ctx
                     (Node MEMORY_ACCESS tok (DefinitionMeta (pointerDefinition base storageType))
                        rt ae dv (Node aty atok am art aae adv (address # rest) # others))
                     depth c = Inr c'
                 \<and> emittedField ''flags'' c1 c' = [ByteList [int a]]))
      \<and> (\<forall>ctx tok m rt ae dv ltok lrt lae ldv aty atok am art aae adv address others right
            depth c c1.
            generate (ctx\<lparr>gparentType := aty\<rparr>) address depth c = Inr c1 \<longrightarrow>
            (\<exists>c2. emitAddressing (pointerDefinition base storageType) c1 = Inr c2
               \<and> (\<forall>c3. generate (ctx\<lparr>gparentType := ASSIGN\<rparr>) right depth c2 = Inr c3
                      \<and> (dv \<or> (\<exists>t. m = TempVariableMeta t \<and> int (index t) < 2 ^ 32)) \<longrightarrow>
                    (\<exists>c'. generate ctx
                             (Node ASSIGN tok m rt ae dv
                                [Node MEMORY_ACCESS ltok
                                   (DefinitionMeta (pointerDefinition base storageType))
                                   lrt lae ldv
                                   (Node aty atok am art aae adv (address # rest) # others),
                                 right])
                             depth c = Inr c'
                         \<and> emittedField ''flags'' c3 c' = [ByteList [int a]]))))"
proof -
  let ?d = "pointerDefinition base storageType"
  from accessParameters_alignment [OF assms(1,2,3), of base] obtain a where
    ap: "accessParameters ?d rest = Inr (IntNum offset, a)"
    and enc: "uLEB (int a) [] = [int a]"
    and rest: "2 ^ a dvd nat offset" "2 ^ a \<le> storageSize ?d"
      "\<forall>b. 2 ^ b \<le> storageSize ?d \<and> 2 ^ b dvd nat offset \<longrightarrow> b \<le> a"
      "offset = 0 \<longrightarrow> 2 ^ a = storageSize ?d"
    by blast
  have none: "rest = [] \<longrightarrow> offset = 0"
    using assms(2) by (auto simp: offsetOf_def)
  have size: "storageSize ?d \<le> 8"
    using storageSize_pointerDefinition [OF assms(1), of base] by auto
  have a3: "a \<le> 3"
  proof -
    have "(2::nat) ^ a \<le> 2 ^ 3" using rest(2) size by simp
    then show ?thesis by (simp only: power_increasing_iff)
  qed
  have idx: "int (index ?d) < 2 ^ 32" using assms(5) by (simp add: index_pointerDefinition)
  have load: "\<exists>c'. generate ctx (Node MEMORY_ACCESS tok (DefinitionMeta ?d) rt ae dv
        (Node aty atok am art aae adv (address # rest) # others)) depth c = Inr c'
      \<and> emittedField ''flags'' c1 c' = [ByteList [int a]]"
    if g: "generate (ctx\<lparr>gparentType := aty\<rparr>) address depth c = Inr c1"
    for ctx tok rt ae dv aty atok am art aae adv address others depth c c1
  proof -
    from emitMemoryLoad_ok [OF idx size a3 assms(3,4)] obtain c' where
      l: "emitMemoryLoad ?d (IntNum offset) a c1 = Inr c'" by blast
    obtain c'' where f: "finishNode dv c' = Inr c''" by (simp add: finishNode_def)
    have "generate ctx (Node MEMORY_ACCESS tok (DefinitionMeta ?d) rt ae dv
        (Node aty atok am art aae adv (address # rest) # others)) depth c = Inr c''"
      by (simp add: generate_MEMORY_ACCESS ap g l then_do_def f)
    moreover have "emittedField ''flags'' c1 c'' = [ByteList [int a]]"
      using emittedField_finishNode [OF f, of "''flags''" c1] emitMemoryLoad_flags [OF l] enc
      by simp
    ultimately show ?thesis by blast
  qed
  have store: "\<exists>c2. emitAddressing ?d c1 = Inr c2
      \<and> (\<forall>c3. generate (ctx\<lparr>gparentType := ASSIGN\<rparr>) right depth c2 = Inr c3
             \<and> (dv \<or> (\<exists>t. m = TempVariableMeta t \<and> int (index t) < 2 ^ 32)) \<longrightarrow>
           (\<exists>c'. generate ctx (Node ASSIGN tok m rt ae dv
                    [Node MEMORY_ACCESS ltok (DefinitionMeta ?d) lrt lae ldv
                       (Node aty atok am art aae adv (address # rest) # others), right])
                    depth c = Inr c'
                \<and> emittedField ''flags'' c3 c' = [ByteList [int a]]))"
    if g: "generate (ctx\<lparr>gparentType := aty\<rparr>) address depth c = Inr c1"
    for ctx tok m rt ae dv ltok lrt lae ldv aty atok am art aae adv address others right depth c c1
  proof -
    from emitAddressing_ok [OF idx size] obtain c2 where
      ad: "emitAddressing ?d c1 = Inr c2" by blast
    have "\<exists>c'. generate ctx (Node ASSIGN tok m rt ae dv
                    [Node MEMORY_ACCESS ltok (DefinitionMeta ?d) lrt lae ldv
                       (Node aty atok am art aae adv (address # rest) # others), right])
                    depth c = Inr c'
                \<and> emittedField ''flags'' c3 c' = [ByteList [int a]]"
      if r: "generate (ctx\<lparr>gparentType := ASSIGN\<rparr>) right depth c2 = Inr c3"
        and m: "dv \<or> (\<exists>t. m = TempVariableMeta t \<and> int (index t) < 2 ^ 32)" for c3
    proof -
      from emitMemoryStore_ok [OF a3 assms(3,4) m] obtain c' where
        s: "emitMemoryStore ?d (IntNum offset) a dv m c3 = Inr c'" by blast
      have "generate ctx (Node ASSIGN tok m rt ae dv
                    [Node MEMORY_ACCESS ltok (DefinitionMeta ?d) lrt lae ldv
                       (Node aty atok am art aae adv (address # rest) # others), right])
                    depth c = Inr c'"
        by (simp add: generate_ASSIGN_memory ap g ad r s)
      with emitMemoryStore_flags [OF s] enc show ?thesis by simp
    qed
    with ad show ?thesis by blast
  qed
  have load': "\<forall>ctx tok rt ae dv aty atok am art aae adv address others depth c c1.
      generate (ctx\<lparr>gparentType := aty\<rparr>) address depth c = Inr c1 \<longrightarrow>
      (\<exists>c'. generate ctx (Node MEMORY_ACCESS tok (DefinitionMeta ?d) rt ae dv
               (Node aty atok am art aae adv (address # rest) # others)) depth c = Inr c'
           \<and> emittedField ''flags'' c1 c' = [ByteList [int a]])"
    by (intro allI impI) (rule load)
  have store': "\<forall>ctx tok m rt ae dv ltok lrt lae ldv aty atok am art aae adv address others right
      depth c c1.
      generate (ctx\<lparr>gparentType := aty\<rparr>) address depth c = Inr c1 \<longrightarrow>
      (\<exists>c2. emitAddressing ?d c1 = Inr c2
         \<and> (\<forall>c3. generate (ctx\<lparr>gparentType := ASSIGN\<rparr>) right depth c2 = Inr c3
                \<and> (dv \<or> (\<exists>t. m = TempVariableMeta t \<and> int (index t) < 2 ^ 32)) \<longrightarrow>
              (\<exists>c'. generate ctx (Node ASSIGN tok m rt ae dv
                       [Node MEMORY_ACCESS ltok (DefinitionMeta ?d) lrt lae ldv
                          (Node aty atok am art aae adv (address # rest) # others), right])
                       depth c = Inr c'
                   \<and> emittedField ''flags'' c3 c' = [ByteList [int a]])))"
    by (intro allI impI) (rule store)
  from ap rest none load' store' show ?thesis
    by (intro exI [of _ a] conjI) assumption+
qed

theorem memory_access_alignment_witness:
  "(\<exists>c'. generate \<lparr>gparentType = BLOCK, loopDepths = []\<rparr>
          (Node MEMORY_ACCESS ''p'' (DefinitionMeta (pointerDefinition emptyDefinition ''i32''))
             ''i32'' False False
             [Node ADDRESS ''['' NullMeta ''void'' False False
                [Node I32_LITERAL ''0'' (LiteralMeta (IntNum 0) ''i32'') ''i32'' False False [],
                 Node I32_LITERAL ''6'' (LiteralMeta (IntNum 6) ''i32'') ''i32'' False False []]])
          0 \<lparr>path = ''code'', parts = [], totalSize = 0\<rparr> = Inr c'
      \<and> emittedField ''flags''
          (bytes (LEB 0 []) ''value'' (op ''i32.const'' \<lparr>path = ''code'', parts = [], totalSize = 0\<rparr>))
          c' = [ByteList [1]])
   \<and> (\<exists>c3 c'. generate \<lparr>gparentType = BLOCK, loopDepths = []\<rparr>
          (Node ASSIGN ''='' NullMeta ''void'' False True
             [Node MEMORY_ACCESS ''p'' (DefinitionMeta (pointerDefinition emptyDefinition ''i32''))
                ''i32'' False False
                [Node ADDRESS ''['' NullMeta ''void'' False False
                   [Node I32_LITERAL ''0'' (LiteralMeta (IntNum 0) ''i32'') ''i32'' False False [],
                    Node I32_LITERAL ''6'' (LiteralMeta (IntNum 6) ''i32'') ''i32'' False False []]],
              Node I32_LITERAL ''5'' (LiteralMeta (IntNum 5) ''i32'') ''i32'' False False []])
          0 \<lparr>path = ''code'', parts = [], totalSize = 0\<rparr> = Inr c'
      \<and> emittedField ''flags'' c3 c' = [ByteList [1]])"
proof -
  let ?rest = "[Node I32_LITERAL ''6'' (LiteralMeta (IntNum 6) ''i32'') ''i32'' False False []]"
  let ?address = "Node I32_LITERAL ''0'' (LiteralMeta (IntNum 0) ''i32'') ''i32'' False False []"
  let ?right = "Node I32_LITERAL ''5'' (LiteralMeta (IntNum 5) ''i32'') ''i32'' False False []"
  let ?g = "\<lparr>gparentType = BLOCK, loopDepths = []\<rparr>"
  let ?c = "\<lparr>path = ''code'', parts = [], totalSize = 0\<rparr>"
  let ?c1 = "bytes (LEB 0 []) ''value'' (op ''i32.const'' ?c)"
  have h1: "''i32'' \<in> set storageTypeTexts" by (simp add: storageTypeTexts_def)
  have h2: "offsetOf ?rest = Inr (IntNum 6)" by (simp add: offsetOf_def metaValue_def)
  have h3: "(0::int) \<le> 6" by simp
  have h4: "(6::int) < 2 ^ 32" by simp
  have h5: "int (index emptyDefinition) < 2 ^ 32" by (simp add: emptyDefinition_def)
  have size: "storageSize (pointerDefinition emptyDefinition ''i32'') = 4"
    by (simp add: pointerDefinition_def digitsToNat_def Let_def)
  have ga: "generate (?g\<lparr>gparentType := ADDRESS\<rparr>) ?address 0 ?c = Inr ?c1"
    by (rule generate_i32_literal)
  from memory_access_alignment [OF h1 h2 h3 h4 h5]
  obtain a where
    d: "2 ^ a dvd nat 6"
    and g: "\<forall>b. 2 ^ b \<le> storageSize (pointerDefinition emptyDefinition ''i32'')
        \<and> 2 ^ b dvd nat 6 \<longrightarrow> b \<le> a"
    and load: "\<forall>ctx tok rt ae dv aty atok am art aae adv address others depth c c1.
      generate (ctx\<lparr>gparentType := aty\<rparr>) address depth c = Inr c1 \<longrightarrow>
      (\<exists>c'. generate ctx
               (Node MEMORY_ACCESS tok (DefinitionMeta (pointerDefinition emptyDefinition ''i32''))
                  rt ae dv (Node aty atok am art aae adv (address # ?rest) # others))
               depth c = Inr c'
           \<and> emittedField ''flags'' c1 c' = [ByteList [int a]])"
    and store: "\<forall>ctx tok m rt ae dv ltok lrt lae ldv aty atok am art aae adv address others right
      depth c c1.
      generate (ctx\<lparr>gparentType := aty\<rparr>) address depth c = Inr c1 \<longrightarrow>
      (\<exists>c2. emitAddressing (pointerDefinition emptyDefinition ''i32'') c1 = Inr c2
         \<and> (\<forall>c3. generate (ctx\<lparr>gparentType := ASSIGN\<rparr>) right depth c2 = Inr c3
                \<and> (dv \<or> (\<exists>t. m = TempVariableMeta t \<and> int (index t) < 2 ^ 32)) \<longrightarrow>
              (\<exists>c'. generate ctx
                       (Node ASSIGN tok m rt ae dv
                          [Node MEMORY_ACCESS ltok
                             (DefinitionMeta (pointerDefinition emptyDefinition ''i32''))
                             lrt lae ldv
                             (Node aty atok am art aae adv (address # ?rest) # others),
                           right])
                       depth c = Inr c'
                   \<and> emittedField ''flags'' c3 c' = [ByteList [int a]])))"
    by (elim exE conjE)
  from g have "2 ^ 1 \<le> storageSize (pointerDefinition emptyDefinition ''i32'')
        \<and> 2 ^ 1 dvd nat 6 \<longrightarrow> 1 \<le> a" by (rule spec)
  with size have "1 \<le> a" by simp
  moreover have "a \<le> 1"
  proof (rule ccontr)
    assume "\<not> a \<le> 1"
    then have "2 \<le> a" by simp
    then have "(2::nat) ^ 2 dvd 2 ^ a" by (rule le_imp_power_dvd)
    from this d have "(2::nat) ^ 2 dvd nat 6" by (rule dvd_trans)
    then show False by simp
  qed
  ultimately have a: "int a = 1" by simp
  have "\<exists>c'. generate ?g
          (Node MEMORY_ACCESS ''p'' (DefinitionMeta (pointerDefinition emptyDefinition ''i32''))
             ''i32'' False False
             [Node ADDRESS ''['' NullMeta ''void'' False False (?address # ?rest)])
          0 ?c = Inr c'
      \<and> emittedField ''flags'' ?c1 c' = [ByteList [int a]]"
    by (rule load [rule_format, OF ga])
  then have 1: "\<exists>c'. generate ?g
          (Node MEMORY_ACCESS ''p'' (DefinitionMeta (pointerDefinition emptyDefinition ''i32''))
             ''i32'' False False
             [Node ADDRESS ''['' NullMeta ''void'' False False (?address # ?rest)])
          0 ?c = Inr c'
      \<and> emittedField ''flags'' ?c1 c' = [ByteList [1]]"
    by (simp only: a)
  have "\<exists>c2. emitAddressing (pointerDefinition emptyDefinition ''i32'') ?c1 = Inr c2
      \<and> (\<forall>c3. generate (?g\<lparr>gparentType := ASSIGN\<rparr>) ?right 0 c2 = Inr c3
          \<and> (True \<or> (\<exists>t. NullMeta = TempVariableMeta t \<and> int (index t) < 2 ^ 32)) \<longrightarrow>
        (\<exists>c'. generate ?g
                 (Node ASSIGN ''='' NullMeta ''void'' False True
                    [Node MEMORY_ACCESS ''p''
                       (DefinitionMeta (pointerDefinition emptyDefinition ''i32''))
                       ''i32'' False False
                       [Node ADDRESS ''['' NullMeta ''void'' False False (?address # ?rest)],
                     ?right])
                 0 ?c = Inr c'
             \<and> emittedField ''flags'' c3 c' = [ByteList [int a]]))"
    by (rule store [rule_format, OF ga])
  then obtain c2 where
    s: "\<forall>c3. generate (?g\<lparr>gparentType := ASSIGN\<rparr>) ?right 0 c2 = Inr c3
          \<and> (True \<or> (\<exists>t. NullMeta = TempVariableMeta t \<and> int (index t) < 2 ^ 32)) \<longrightarrow>
        (\<exists>c'. generate ?g
                 (Node ASSIGN ''='' NullMeta ''void'' False True
                    [Node MEMORY_ACCESS ''p''
                       (DefinitionMeta (pointerDefinition emptyDefinition ''i32''))
                       ''i32'' False False
                       [Node ADDRESS ''['' NullMeta ''void'' False False (?address # ?rest)],
                     ?right])
                 0 ?c = Inr c'
             \<and> emittedField ''flags'' c3 c' = [ByteList [int a]])"
    by (elim exE conjE)
  have gr: "generate (?g\<lparr>gparentType := ASSIGN\<rparr>) ?right 0 c2
      = Inr (bytes (LEB 5 []) ''value'' (op ''i32.const'' c2))"
    by (rule generate_i32_literal)
  from s [rule_format, of "bytes (LEB 5 []) ''value'' (op ''i32.const'' c2)"] gr
  have 2: "\<exists>c3 c'. generate ?g
                 (Node ASSIGN ''='' NullMeta ''void'' False True
                    [Node MEMORY_ACCESS ''p''
                       (DefinitionMeta (pointerDefinition emptyDefinition ''i32''))
                       ''i32'' False False
                       [Node ADDRESS ''['' NullMeta ''void'' False False (?address # ?rest)],
                     ?right])
                 0 ?c = Inr c'
             \<and> emittedField ''flags'' c3 c' = [ByteList [1]]"
    unfolding a by blast
  from 1 2 show ?thesis by (rule conjI)
qed

end
